theory Spec2Isabelle
  imports Main "HOL-Library.AList"
begin

section \<open>Python values\<close>

text \<open>
  A Python \<open>str\<close> is modelled as a \<open>string\<close>, one \<open>char\<close> per code point, so that
  \<open>length\<close> is Python's \<open>len\<close>; code points above 255 are outside the model.
  The exceptions the server can meet while it decodes and dispatches a frame are values.
\<close>

datatype exn = JSONDecodeError | KeyError | ValueError | TypeError | AttributeError

text \<open>
  What \<open>json.loads\<close> returns and \<open>json.dumps\<close> accepts: \<open>None\<close>, booleans, integers,
  strings, lists and dicts with string keys (a dict keeps its insertion order). Floats
  do not occur in this protocol and are left out.
\<close>

datatype json =
    JNull
  | JBool bool
  | JInt int
  | JStr string
  | JArr "json list"
  | JObj "(string \<times> json) list"

text \<open>Python truthiness of such a value (\<open>if room_name:\<close>, \<open>a or b\<close>).\<close>

fun truthy :: "json \<Rightarrow> bool" where
  "truthy JNull = False"
| "truthy (JBool b) = b"
| "truthy (JInt i) = (i \<noteq> 0)"
| "truthy (JStr s) = (s \<noteq> [])"
| "truthy (JArr xs) = (xs \<noteq> [])"
| "truthy (JObj kv) = (kv \<noteq> [])"

text \<open>\<open>d.get(key, default)\<close>: only a dict has the method.\<close>

fun dict_get :: "json \<Rightarrow> string \<Rightarrow> json \<Rightarrow> exn + json" where
  "dict_get (JObj kv) k d = Inr (case map_of kv k of None \<Rightarrow> d | Some v \<Rightarrow> v)"
| "dict_get _ k d = Inl AttributeError"

text \<open>\<open>d[key]\<close> with a string key: KeyError on a dict without it, TypeError on anything else.\<close>

fun getitem :: "json \<Rightarrow> string \<Rightarrow> exn + json" where
  "getitem (JObj kv) k = (case map_of kv k of None \<Rightarrow> Inl KeyError | Some v \<Rightarrow> Inr v)"
| "getitem _ k = Inl TypeError"

text \<open>\<open>str.isspace\<close> on one code point below 256, and \<open>str.strip()\<close>.\<close>

definition isspace :: "char \<Rightarrow> bool" where
  "isspace c = (let n = (of_char c :: nat) in
     (9 \<le> n \<and> n \<le> 13) \<or> (28 \<le> n \<and> n \<le> 32) \<or> n = 133 \<or> n = 160)"

definition strip :: "string \<Rightarrow> string" where
  "strip s = rev (dropWhile isspace (rev (dropWhile isspace s)))"

text \<open>\<open>v.strip()\<close> on a value read from a payload: only a \<open>str\<close> has the method.\<close>

fun py_strip :: "json \<Rightarrow> exn + string" where
  "py_strip (JStr s) = Inr (strip s)"
| "py_strip _ = Inl AttributeError"

text \<open>\<open>str.lower()\<close> on code points below 256.\<close>

definition lower_char :: "char \<Rightarrow> char" where
  "lower_char c = (let n = (of_char c :: nat) in
     if (65 \<le> n \<and> n \<le> 90) \<or> (192 \<le> n \<and> n \<le> 222 \<and> n \<noteq> 215)
     then char_of (n + 32) else c)"

definition lower :: "string \<Rightarrow> string" where
  "lower s = map lower_char s"

text \<open>The slice \<open>xs[i:]\<close>: a negative \<open>i\<close> counts from the end, and both ends are clipped.\<close>

definition slice_from :: "int \<Rightarrow> 'a list \<Rightarrow> 'a list" where
  "slice_from i xs =
     (if i < 0 then drop (nat (int (length xs) + i)) xs else drop (nat i) xs)"

section \<open>The protocol (common/protocol.py)\<close>

datatype MessageType =
    CONNECT | DISCONNECT | CONNECTION_ACK | CONNECTION_ERROR
  | CREATE_ROOM | JOIN_ROOM | LEAVE_ROOM | LIST_ROOMS | ROOMS_LIST | ROOM_USERS
  | CHAT_MESSAGE | SYSTEM_MESSAGE
  | USER_JOINED | USER_LEFT
  | ERROR

fun tag :: "MessageType \<Rightarrow> string" where
  "tag CONNECT = ''connect''"
| "tag DISCONNECT = ''disconnect''"
| "tag CONNECTION_ACK = ''connection_ack''"
| "tag CONNECTION_ERROR = ''connection_error''"
| "tag CREATE_ROOM = ''create_room''"
| "tag JOIN_ROOM = ''join_room''"
| "tag LEAVE_ROOM = ''leave_room''"
| "tag LIST_ROOMS = ''list_rooms''"
| "tag ROOMS_LIST = ''rooms_list''"
| "tag ROOM_USERS = ''room_users''"
| "tag CHAT_MESSAGE = ''chat_message''"
| "tag SYSTEM_MESSAGE = ''system_message''"
| "tag USER_JOINED = ''user_joined''"
| "tag USER_LEFT = ''user_left''"
| "tag ERROR = ''error''"

definition all_types :: "MessageType list" where
  "all_types = [CONNECT, DISCONNECT, CONNECTION_ACK, CONNECTION_ERROR,
     CREATE_ROOM, JOIN_ROOM, LEAVE_ROOM, LIST_ROOMS, ROOMS_LIST, ROOM_USERS,
     CHAT_MESSAGE, SYSTEM_MESSAGE, USER_JOINED, USER_LEFT, ERROR]"

text \<open>
  \<open>MessageType(v)\<close>: the member whose value is \<open>v\<close>, in definition order; ValueError when
  there is none (also for a \<open>v\<close> that is not a string).
\<close>

fun MessageType_of :: "json \<Rightarrow> exn + MessageType" where
  "MessageType_of (JStr v) =
     (case find (\<lambda>t. tag t = v) all_types of None \<Rightarrow> Inl ValueError | Some t \<Rightarrow> Inr t)"
| "MessageType_of _ = Inl ValueError"

text \<open>
  The dataclass \<open>Message\<close>. The annotation says \<open>timestamp: str\<close>, but \<open>from_json\<close> stores
  whatever the frame holds under that key, so the field is a JSON value.
\<close>

record Message =
  msg_type :: MessageType
  payload :: json
  timestamp :: json

text \<open>
  The constructor with \<open>__post_init__\<close>: a missing timestamp becomes the wall clock's
  \<open>datetime.now().isoformat()\<close>, which every function that builds a message takes as the
  parameter \<open>now\<close>.
\<close>

definition mk_Message :: "string \<Rightarrow> MessageType \<Rightarrow> json \<Rightarrow> json \<Rightarrow> Message" where
  "mk_Message now t p ts =
     \<lparr>msg_type = t, payload = p, timestamp = (if ts = JNull then JStr now else ts)\<rparr>"

text \<open>
  \<open>to_json\<close> and \<open>from_json\<close>. The standard library's \<open>json.dumps\<close> and \<open>json.loads\<close> are
  parameters: \<open>loads\<close> returns \<open>None\<close> where the library raises JSONDecodeError.
\<close>

definition to_dict :: "Message \<Rightarrow> json" where
  "to_dict m = JObj [(''type'', JStr (tag (msg_type m))),
                     (''payload'', payload m),
                     (''timestamp'', timestamp m)]"

definition to_json :: "(json \<Rightarrow> string) \<Rightarrow> Message \<Rightarrow> string" where
  "to_json dumps m = dumps (to_dict m)"

definition from_json :: "(string \<Rightarrow> json option) \<Rightarrow> string \<Rightarrow> string \<Rightarrow> exn + Message" where
  "from_json loads now json_str =
     (case loads json_str of
        None \<Rightarrow> Inl JSONDecodeError
      | Some data \<Rightarrow>
          (case getitem data ''type'' of
             Inl e \<Rightarrow> Inl e
           | Inr tv \<Rightarrow>
               (case MessageType_of tv of
                  Inl e \<Rightarrow> Inl e
                | Inr t \<Rightarrow>
                    (case getitem data ''payload'' of
                       Inl e \<Rightarrow> Inl e
                     | Inr p \<Rightarrow>
                         (case dict_get data ''timestamp'' JNull of
                            Inl e \<Rightarrow> Inl e
                          | Inr ts \<Rightarrow> Inr (mk_Message now t p ts))))))"

subsection \<open>MessageFactory\<close>

definition create_connection_ack :: "string \<Rightarrow> string \<Rightarrow> string \<Rightarrow> Message" where
  "create_connection_ack now username uid =
     mk_Message now CONNECTION_ACK
       (JObj [(''username'', JStr username), (''user_id'', JStr uid)]) JNull"

definition create_connection_error :: "string \<Rightarrow> string \<Rightarrow> Message" where
  "create_connection_error now reason =
     mk_Message now CONNECTION_ERROR (JObj [(''reason'', JStr reason)]) JNull"

definition create_rooms_list :: "string \<Rightarrow> json list \<Rightarrow> Message" where
  "create_rooms_list now rooms =
     mk_Message now ROOMS_LIST (JObj [(''rooms'', JArr rooms)]) JNull"

definition create_room_users :: "string \<Rightarrow> string \<Rightarrow> string list \<Rightarrow> Message" where
  "create_room_users now room_name users =
     mk_Message now ROOM_USERS
       (JObj [(''room_name'', JStr room_name), (''users'', JArr (map JStr users))]) JNull"

definition create_chat_message :: "string \<Rightarrow> string \<Rightarrow> string \<Rightarrow> string \<Rightarrow> Message" where
  "create_chat_message now username room_name content =
     mk_Message now CHAT_MESSAGE
       (JObj [(''username'', JStr username), (''room_name'', JStr room_name),
              (''content'', JStr content)]) JNull"

definition create_system_message :: "string \<Rightarrow> string \<Rightarrow> string option \<Rightarrow> Message" where
  "create_system_message now content room_name =
     mk_Message now SYSTEM_MESSAGE
       (JObj [(''content'', JStr content),
              (''room_name'', (case room_name of None \<Rightarrow> JNull | Some n \<Rightarrow> JStr n))]) JNull"

definition create_user_joined :: "string \<Rightarrow> string \<Rightarrow> string \<Rightarrow> Message" where
  "create_user_joined now username room_name =
     mk_Message now USER_JOINED
       (JObj [(''username'', JStr username), (''room_name'', JStr room_name)]) JNull"

definition create_user_left :: "string \<Rightarrow> string \<Rightarrow> string \<Rightarrow> Message" where
  "create_user_left now username room_name =
     mk_Message now USER_LEFT
       (JObj [(''username'', JStr username), (''room_name'', JStr room_name)]) JNull"

definition create_error :: "string \<Rightarrow> string \<Rightarrow> Message" where
  "create_error now error_message =
     mk_Message now ERROR (JObj [(''message'', JStr error_message)]) JNull"

section \<open>The models (server/models)\<close>

type_synonym uid = string
type_synonym ws = nat

text \<open>
  The dataclass \<open>User\<close>. Equality and hash are those of \<open>user_id\<close>, so a user is referred
  to by its id: the objects live in the server's \<open>heap\<close>, and the dict of connected users,
  the rooms' sets and the connection handlers hold ids. \<open>user_id\<close> is the first eight
  characters of a fresh \<open>uuid4\<close>; the token drawn is a parameter of registration.
\<close>

record User =
  username :: string
  websocket :: ws
  user_id :: uid
  connected_at :: string
  current_room :: "string option"

text \<open>One record of a room's history: the dict with keys username, content, timestamp.\<close>

datatype history_entry = HistoryEntry (h_username: string) (h_content: string) (h_timestamp: string)

text \<open>
  The dataclass \<open>Room\<close>. The set \<open>_users\<close> is the list \<open>room_users\<close> of ids without
  repetition; it is iterated in insertion order (Python leaves the order of a set open).
\<close>

record Room =
  name :: string
  created_by :: string
  created_at :: string
  room_users :: "uid list"
  message_history :: "history_entry list"
  max_history :: int

text \<open>
  A send is recorded with the \<open>Message\<close> whose \<open>to_json()\<close> text is written, and with the
  object it is written to: a user (\<open>User.send_message\<close>, which writes to the user's own
  websocket and swallows every failure) or a websocket (\<open>websocket.send\<close> in the
  handshake). The transport itself is outside the model.
\<close>

datatype target = ToUser uid | ToSocket ws

type_synonym effect = "target \<times> Message"

type_synonym heap = "(uid \<times> User) list"

definition send_message :: "uid \<Rightarrow> Message \<Rightarrow> effect list" where
  "send_message u m = [(ToUser u, m)]"

text \<open>Reading and writing a field of the user object with id \<open>u\<close>.\<close>

definition get_username :: "heap \<Rightarrow> uid \<Rightarrow> string" where
  "get_username h u = (case map_of h u of None \<Rightarrow> [] | Some x \<Rightarrow> username x)"

definition get_current_room :: "heap \<Rightarrow> uid \<Rightarrow> string option" where
  "get_current_room h u = (case map_of h u of None \<Rightarrow> None | Some x \<Rightarrow> current_room x)"

definition set_current_room :: "heap \<Rightarrow> uid \<Rightarrow> string option \<Rightarrow> heap" where
  "set_current_room h u r =
     (case map_of h u of None \<Rightarrow> h | Some x \<Rightarrow> AList.update u (x\<lparr>current_room := r\<rparr>) h)"

text \<open>Truthiness of \<open>user.current_room\<close>: neither \<open>None\<close> nor the empty string.\<close>

fun str_truthy :: "string option \<Rightarrow> bool" where
  "str_truthy None = False"
| "str_truthy (Some s) = (s \<noteq> [])"

subsection \<open>Room\<close>

definition len_Room :: "Room \<Rightarrow> nat" where
  "len_Room r = length (room_users r)"

text \<open>
  \<open>Room\<close> defines \<open>__len__\<close> and no \<open>__bool__\<close>, so a room used as a condition
  (\<open>if not room\<close>, \<open>room and ...\<close>) is true exactly when it has a user.
\<close>

definition bool_Room :: "Room \<Rightarrow> bool" where
  "bool_Room r = (len_Room r \<noteq> 0)"

definition is_empty :: "Room \<Rightarrow> bool" where
  "is_empty r = (length (room_users r) = 0)"

definition usernames :: "heap \<Rightarrow> Room \<Rightarrow> string list" where
  "usernames h r = map (get_username h) (room_users r)"

definition has_user :: "Room \<Rightarrow> uid \<Rightarrow> bool" where
  "has_user r u = (u \<in> set (room_users r))"

text \<open>\<open>add_user\<close> and \<open>remove_user\<close> change the room and the user's \<open>current_room\<close>.\<close>

definition add_user :: "Room \<Rightarrow> uid \<Rightarrow> heap \<Rightarrow> bool \<times> Room \<times> heap" where
  "add_user r u h =
     (if u \<in> set (room_users r) then (False, r, h)
      else (True, r\<lparr>room_users := room_users r @ [u]\<rparr>, set_current_room h u (Some (name r))))"

definition remove_user :: "Room \<Rightarrow> uid \<Rightarrow> heap \<Rightarrow> bool \<times> Room \<times> heap" where
  "remove_user r u h =
     (if u \<notin> set (room_users r) then (False, r, h)
      else (True, r\<lparr>room_users := removeAll u (room_users r)\<rparr>, set_current_room h u None))"

definition add_message_to_history :: "string \<Rightarrow> Room \<Rightarrow> string \<Rightarrow> string \<Rightarrow> Room" where
  "add_message_to_history now r uname content =
     (let h = message_history r @ [HistoryEntry uname content now]
      in if int (length h) > max_history r
         then r\<lparr>message_history := slice_from (- max_history r) h\<rparr>
         else r\<lparr>message_history := h\<rparr>)"

text \<open>\<open>Room.broadcast\<close>: one send per user of the room but \<open>exclude\<close>.\<close>

definition broadcast :: "Room \<Rightarrow> Message \<Rightarrow> uid option \<Rightarrow> effect list" where
  "broadcast r m exclude =
     concat (map (\<lambda>u. send_message u m)
       (filter (\<lambda>u. \<not> (exclude \<noteq> None \<and> Some u = exclude)) (room_users r)))"

definition Room_to_dict :: "heap \<Rightarrow> Room \<Rightarrow> json" where
  "Room_to_dict h r = JObj [
     (''name'', JStr (name r)),
     (''created_by'', JStr (created_by r)),
     (''created_at'', JStr (created_at r)),
     (''user_count'', JInt (int (length (room_users r)))),
     (''users'', JArr (map JStr (usernames h r)))]"

definition new_Room :: "string \<Rightarrow> string \<Rightarrow> string \<Rightarrow> Room" where
  "new_Room now n creator =
     \<lparr>name = n, created_by = creator, created_at = now, room_users = [],
      message_history = [], max_history = 100\<rparr>"

section \<open>The server (server/server.py)\<close>

text \<open>
  The dicts \<open>_users\<close>, \<open>_rooms\<close> and \<open>_websocket_to_user\<close> keep their insertion order.
  \<open>_users\<close> maps an id to the user object with that id, so it is the list of its keys.
  Every operation runs to its end before the next one starts: the interleaving of
  coroutines at an \<open>await\<close> is not modelled.
\<close>

record ChatServer =
  heap :: heap
  server_users :: "uid list"
  server_rooms :: "(string \<times> Room) list"
  websocket_to_user :: "(ws \<times> uid) list"

definition init :: "string \<Rightarrow> ChatServer" where
  "init now = \<lparr>heap = [], server_users = [],
     server_rooms = [(''General'', new_Room now ''General'' ''Sistema'')],
     websocket_to_user = []\<rparr>"

definition get_rooms_info :: "ChatServer \<Rightarrow> json list" where
  "get_rooms_info s = map (\<lambda>p. Room_to_dict (heap s) (snd p)) (server_rooms s)"

definition broadcast_to_all :: "ChatServer \<Rightarrow> Message \<Rightarrow> effect list" where
  "broadcast_to_all s m = concat (map (\<lambda>u. send_message u m) (server_users s))"

text \<open>Every operation returns its result, the server after it and the sends it made.\<close>

definition delete_room :: "string \<Rightarrow> ChatServer \<Rightarrow> string \<Rightarrow> bool \<times> ChatServer \<times> effect list" where
  "delete_room now s room_name =
     (if room_name = ''General'' then (False, s, [])
      else
        (case map_of (server_rooms s) room_name of
           None \<Rightarrow> (False, s, [])
         | Some room \<Rightarrow>
             if bool_Room room \<and> is_empty room then
               (let s' = s\<lparr>server_rooms := AList.delete room_name (server_rooms s)\<rparr>
                in (True, s', broadcast_to_all s' (create_rooms_list now (get_rooms_info s'))))
             else (False, s, [])))"

definition leave_room :: "string \<Rightarrow> ChatServer \<Rightarrow> uid \<Rightarrow> string \<Rightarrow> bool \<times> ChatServer \<times> effect list" where
  "leave_room now s u room_name =
     (case map_of (server_rooms s) room_name of
        None \<Rightarrow> (False, s, [])
      | Some room \<Rightarrow>
          if \<not> bool_Room room then (False, s, [])
          else
            (case remove_user room u (heap s) of
               (False, _, _) \<Rightarrow> (False, s, [])
             | (True, room', h') \<Rightarrow>
                 (let s1 = s\<lparr>heap := h',
                              server_rooms := AList.update room_name room' (server_rooms s)\<rparr>;
                      e1 = broadcast room'
                             (create_user_left now (get_username h' u) room_name) None;
                      e2 = (if \<not> is_empty room'
                            then broadcast room'
                                   (create_room_users now room_name (usernames h' room')) None
                            else [])
                  in if is_empty room' \<and> room_name \<noteq> ''General'' then
                       (case delete_room now s1 room_name of
                          (_, s2, e3) \<Rightarrow> (True, s2, e1 @ e2 @ e3))
                     else
                       (True, s1, e1 @ e2 @
                          broadcast_to_all s1 (create_rooms_list now (get_rooms_info s1))))))"

text \<open>The leading \<open>if user.current_room ...: await self.leave_room(...)\<close> of three operations.\<close>

definition leave_current :: "string \<Rightarrow> ChatServer \<Rightarrow> uid \<Rightarrow> ChatServer \<times> effect list" where
  "leave_current now s u =
     (case get_current_room (heap s) u of
        None \<Rightarrow> (s, [])
      | Some r \<Rightarrow> (case leave_room now s u r of (_, s', e) \<Rightarrow> (s', e)))"

definition create_room_and_join :: "string \<Rightarrow> ChatServer \<Rightarrow> string \<Rightarrow> uid \<Rightarrow> bool \<times> ChatServer \<times> effect list" where
  "create_room_and_join now s room_name creator =
     (let (s1, e0) = (if str_truthy (get_current_room (heap s) creator)
                      then leave_current now s creator else (s, []))
      in if map_of (server_rooms s1) room_name \<noteq> None then (False, s1, e0)
         else
           (case add_user (new_Room now room_name (get_username (heap s1) creator))
                   creator (heap s1) of
              (_, room, h') \<Rightarrow>
                (let s2 = s1\<lparr>heap := h',
                              server_rooms := AList.update room_name room (server_rooms s1)\<rparr>
                 in (True, s2,
                     e0
                     @ broadcast_to_all s2
                         (create_system_message now
                            (''Se ha creado la sala '' @ [CHR 39] @ room_name @ [CHR 39]) None)
                     @ broadcast_to_all s2 (create_rooms_list now (get_rooms_info s2))
                     @ send_message creator
                         (create_room_users now room_name (usernames h' room))
                     @ send_message creator
                         (create_system_message now
                            (''Has creado y te has unido a la sala '' @ [CHR 39] @ room_name
                               @ [CHR 39])
                            (Some room_name))))))"

definition join_room :: "string \<Rightarrow> ChatServer \<Rightarrow> uid \<Rightarrow> string \<Rightarrow> bool \<times> ChatServer \<times> effect list" where
  "join_room now s u room_name =
     (let (s1, e0) = (if str_truthy (get_current_room (heap s) u)
                         \<and> get_current_room (heap s) u \<noteq> Some room_name
                      then leave_current now s u else (s, []))
      in case map_of (server_rooms s1) room_name of
           None \<Rightarrow>
             (False, s1, e0 @ send_message u
                (create_error now (''La sala '' @ [CHR 39] @ room_name @ [CHR 39] @ '' no existe'')))
         | Some room \<Rightarrow>
             if \<not> bool_Room room then
               (False, s1, e0 @ send_message u
                  (create_error now
                     (''La sala '' @ [CHR 39] @ room_name @ [CHR 39] @ '' no existe'')))
             else
               (case add_user room u (heap s1) of
                  (False, _, _) \<Rightarrow> (False, s1, e0)
                | (True, room', h') \<Rightarrow>
                    (let s2 = s1\<lparr>heap := h',
                                  server_rooms := AList.update room_name room' (server_rooms s1)\<rparr>
                     in (True, s2,
                         e0
                         @ broadcast room'
                             (create_user_joined now (get_username h' u) room_name) (Some u)
                         @ broadcast room'
                             (create_room_users now room_name (usernames h' room')) None
                         @ send_message u
                             (create_system_message now
                                (''Te has unido a la sala '' @ [CHR 39] @ room_name @ [CHR 39])
                                (Some room_name))
                         @ broadcast_to_all s2
                             (create_rooms_list now (get_rooms_info s2))))))"

definition broadcast_message :: "string \<Rightarrow> ChatServer \<Rightarrow> uid \<Rightarrow> string \<Rightarrow> string \<Rightarrow> bool \<times> ChatServer \<times> effect list" where
  "broadcast_message now s u room_name content =
     (case map_of (server_rooms s) room_name of
        None \<Rightarrow> (False, s, [])
      | Some room \<Rightarrow>
          if \<not> bool_Room room then (False, s, [])
          else if \<not> has_user room u then
            (False, s, send_message u (create_error now
               (''No est'' @ [char_of (225::nat)] @ ''s en esta sala'')))
          else
            (let room' = add_message_to_history now room (get_username (heap s) u) content;
                 s' = s\<lparr>server_rooms := AList.update room_name room' (server_rooms s)\<rparr>
             in (True, s', broadcast room'
                   (create_chat_message now (get_username (heap s) u) room_name content) None)))"

text \<open>
  \<open>register_user\<close>: \<open>username\<close> is the value the handshake read from the payload, and
  \<open>token\<close> the id the new \<open>User\<close> draws. The result \<open>None\<close> is the refusal.
\<close>

definition register_user :: "string \<Rightarrow> ChatServer \<Rightarrow> ws \<Rightarrow> json \<Rightarrow> uid \<Rightarrow> exn + (uid option \<times> ChatServer)" where
  "register_user now s w uname token =
     (case py_strip uname of
        Inl e \<Rightarrow> Inl e
      | Inr n \<Rightarrow>
          if n = [] then Inr (None, s)
          else if length n > 30 then Inr (None, s)
          else if list_ex (\<lambda>e. lower (get_username (heap s) e) = lower n) (server_users s)
          then Inr (None, s)
          else Inr (Some token,
            s\<lparr>heap := AList.update token
                  \<lparr>username = n, websocket = w, user_id = token, connected_at = now,
                   current_room = None\<rparr> (heap s),
              server_users := (if token \<in> set (server_users s) then server_users s
                               else server_users s @ [token]),
              websocket_to_user := AList.update w token (websocket_to_user s)\<rparr>))"

definition disconnect_user :: "string \<Rightarrow> ChatServer \<Rightarrow> uid \<Rightarrow> ChatServer \<times> effect list" where
  "disconnect_user now s u =
     (let (s1, e) = (if str_truthy (get_current_room (heap s) u)
                     then leave_current now s u else (s, []))
      in (s1\<lparr>server_users := removeAll u (server_users s1),
              websocket_to_user :=
                (case map_of (heap s1) u of
                   None \<Rightarrow> websocket_to_user s1
                 | Some x \<Rightarrow> AList.delete (websocket x) (websocket_to_user s1))\<rparr>, e))"

section \<open>The handlers (server/handlers/message_handler.py)\<close>

text \<open>
  A handler either raises, before it has changed anything, or returns the server after
  it and the sends it made.
\<close>

type_synonym outcome = "exn + (ChatServer \<times> effect list)"

text \<open>
  \<open>self._rooms.get(key)\<close> with a key a handler passes unchecked: a list or a dict is
  unhashable (TypeError), any other key that is not a string is absent.
\<close>

definition leave_room_key :: "string \<Rightarrow> ChatServer \<Rightarrow> uid \<Rightarrow> json \<Rightarrow> outcome" where
  "leave_room_key now s u k =
     (case k of
        JStr n \<Rightarrow> (case leave_room now s u n of (_, s', e) \<Rightarrow> Inr (s', e))
      | JArr _ \<Rightarrow> Inl TypeError
      | JObj _ \<Rightarrow> Inl TypeError
      | _ \<Rightarrow> Inr (s, []))"

definition broadcast_message_key :: "string \<Rightarrow> ChatServer \<Rightarrow> uid \<Rightarrow> json \<Rightarrow> string \<Rightarrow> outcome" where
  "broadcast_message_key now s u k content =
     (case k of
        JStr n \<Rightarrow> (case broadcast_message now s u n content of (_, s', e) \<Rightarrow> Inr (s', e))
      | JArr _ \<Rightarrow> Inl TypeError
      | JObj _ \<Rightarrow> Inl TypeError
      | _ \<Rightarrow> Inr (s, []))"

definition CreateRoomHandler :: "string \<Rightarrow> ChatServer \<Rightarrow> uid \<Rightarrow> Message \<Rightarrow> outcome" where
  "CreateRoomHandler now s u m =
     (case dict_get (payload m) ''room_name'' (JStr []) of
        Inl e \<Rightarrow> Inl e
      | Inr v \<Rightarrow>
          (case py_strip v of
             Inl e \<Rightarrow> Inl e
           | Inr room_name \<Rightarrow>
               if room_name = [] then
                 Inr (s, send_message u (create_error now
                   (''El nombre de la sala no puede estar vac'' @ [char_of (237::nat)] @ ''o'')))
               else if length room_name > 50 then
                 Inr (s, send_message u (create_error now
                   (''El nombre de la sala es demasiado largo (m'' @ [char_of (225::nat)]
                      @ ''x. 50 caracteres)'')))
               else
                 (case create_room_and_join now s room_name u of
                    (success, s', e) \<Rightarrow>
                      if \<not> success then
                        Inr (s', e @ send_message u (create_error now
                          (''La sala '' @ [CHR 39] @ room_name @ [CHR 39] @ '' ya existe'')))
                      else Inr (s', e))))"

definition JoinRoomHandler :: "string \<Rightarrow> ChatServer \<Rightarrow> uid \<Rightarrow> Message \<Rightarrow> outcome" where
  "JoinRoomHandler now s u m =
     (case dict_get (payload m) ''room_name'' (JStr []) of
        Inl e \<Rightarrow> Inl e
      | Inr v \<Rightarrow>
          (case py_strip v of
             Inl e \<Rightarrow> Inl e
           | Inr room_name \<Rightarrow>
               if room_name = [] then
                 Inr (s, send_message u (create_error now
                   ''Debe especificar el nombre de la sala''))
               else
                 (case join_room now s u room_name of (_, s', e) \<Rightarrow> Inr (s', e))))"

definition LeaveRoomHandler :: "string \<Rightarrow> ChatServer \<Rightarrow> uid \<Rightarrow> Message \<Rightarrow> outcome" where
  "LeaveRoomHandler now s u m =
     (case dict_get (payload m) ''room_name'' JNull of
        Inl e \<Rightarrow> Inl e
      | Inr room_name \<Rightarrow>
          if truthy room_name then leave_room_key now s u room_name
          else if str_truthy (get_current_room (heap s) u) then
            Inr (leave_current now s u)
          else Inr (s, []))"

definition ListRoomsHandler :: "string \<Rightarrow> ChatServer \<Rightarrow> uid \<Rightarrow> Message \<Rightarrow> outcome" where
  "ListRoomsHandler now s u m =
     Inr (s, send_message u (create_rooms_list now (get_rooms_info s)))"

definition ChatMessageHandler :: "string \<Rightarrow> ChatServer \<Rightarrow> uid \<Rightarrow> Message \<Rightarrow> outcome" where
  "ChatMessageHandler now s u m =
     (case dict_get (payload m) ''content'' (JStr []) of
        Inl e \<Rightarrow> Inl e
      | Inr c \<Rightarrow>
          (case py_strip c of
             Inl e \<Rightarrow> Inl e
           | Inr content \<Rightarrow>
               (case dict_get (payload m) ''room_name'' JNull of
                  Inl e \<Rightarrow> Inl e
                | Inr v \<Rightarrow>
                    (let room_name =
                       (if truthy v then v
                        else (case get_current_room (heap s) u of
                                None \<Rightarrow> JNull | Some r \<Rightarrow> JStr r))
                     in if content = [] then Inr (s, [])
                        else if \<not> truthy room_name then
                          Inr (s, send_message u (create_error now
                            (''No est'' @ [char_of (225::nat)] @ ''s en ninguna sala'')))
                        else broadcast_message_key now s u room_name content))))"

definition DisconnectHandler :: "string \<Rightarrow> ChatServer \<Rightarrow> uid \<Rightarrow> Message \<Rightarrow> outcome" where
  "DisconnectHandler now s u m = Inr (disconnect_user now s u)"

text \<open>
  \<open>MessageHandlerRegistry.handle_message\<close>: seven tags have a handler (the one of
  \<open>connect\<close> does nothing); a message of any other type is dropped.
\<close>

definition handle_message :: "string \<Rightarrow> ChatServer \<Rightarrow> uid \<Rightarrow> Message \<Rightarrow> outcome" where
  "handle_message now s u m =
     (case msg_type m of
        CONNECT \<Rightarrow> Inr (s, [])
      | CREATE_ROOM \<Rightarrow> CreateRoomHandler now s u m
      | JOIN_ROOM \<Rightarrow> JoinRoomHandler now s u m
      | LEAVE_ROOM \<Rightarrow> LeaveRoomHandler now s u m
      | LIST_ROOMS \<Rightarrow> ListRoomsHandler now s u m
      | CHAT_MESSAGE \<Rightarrow> ChatMessageHandler now s u m
      | DISCONNECT \<Rightarrow> DisconnectHandler now s u m
      | _ \<Rightarrow> Inr (s, []))"

section \<open>One connection (ChatServer.handle_connection)\<close>

text \<open>
  The body of the loop over the frames of one websocket \<open>w\<close>, after \<open>from_json\<close>: \<open>user\<close> is
  the loop's local variable, \<open>None\<close> until a handshake succeeds. An exception raised in the
  body is caught and logged, and the loop goes on.
\<close>

definition handle_frame :: "string \<Rightarrow> uid \<Rightarrow> ChatServer \<Rightarrow> ws \<Rightarrow> uid option \<Rightarrow> Message \<Rightarrow> ChatServer \<times> uid option \<times> effect list" where
  "handle_frame now token s w user m =
     (case user of
        None \<Rightarrow>
          if msg_type m \<noteq> CONNECT then
            (s, None, [(ToSocket w, create_connection_error now
               (''Primer mensaje debe ser de conexi'' @ [char_of (243::nat)] @ ''n''))])
          else
            (case dict_get (payload m) ''username'' (JStr []) of
               Inl e \<Rightarrow> (s, None, [])
             | Inr uname \<Rightarrow>
                 (case register_user now s w uname token of
                    Inl e \<Rightarrow> (s, None, [])
                  | Inr (None, s') \<Rightarrow>
                      (s', None, [(ToSocket w, create_connection_error now
                         (''Nombre de usuario inv'' @ [char_of (225::nat)] @ ''lido o ya en uso''))])
                  | Inr (Some u, s') \<Rightarrow>
                      (s', Some u,
                       [(ToSocket w, create_connection_ack now (get_username (heap s') u) u),
                        (ToSocket w, create_rooms_list now (get_rooms_info s'))])))
      | Some u \<Rightarrow>
          (case handle_message now s u m of
             Inl e \<Rightarrow> (s, Some u, [])
           | Inr (s', es) \<Rightarrow> (s', Some u, es)))"

text \<open>The whole body: a frame that \<open>from_json\<close> refuses is logged and nothing else happens.\<close>

definition handle_connection_step :: "(string \<Rightarrow> json option) \<Rightarrow> string \<Rightarrow> uid \<Rightarrow> ChatServer \<Rightarrow> ws \<Rightarrow> uid option \<Rightarrow> string \<Rightarrow> ChatServer \<times> uid option \<times> effect list" where
  "handle_connection_step loads now token s w user raw_message =
     (case from_json loads now raw_message of
        Inl e \<Rightarrow> (s, user, [])
      | Inr m \<Rightarrow> handle_frame now token s w user m)"

text \<open>The \<open>finally\<close> clause, when the websocket closes.\<close>

definition handle_connection_finally :: "string \<Rightarrow> ChatServer \<Rightarrow> uid option \<Rightarrow> ChatServer \<times> effect list" where
  "handle_connection_finally now s user =
     (case user of None \<Rightarrow> (s, []) | Some u \<Rightarrow> disconnect_user now s u)"

section \<open>Reachable servers\<close>

text \<open>
  The servers the code can be in between two operations: the one \<open>__init__\<close> builds, and
  from there a handshake that registers a user under a token no user object has yet
  (\<open>uuid4\<close> tokens are taken to be unique), a message of a registered connection going
  through its handler, and a disconnection. The user \<open>u\<close> of a step is any user object
  ever created: after a \<open>disconnect\<close> message the loop still holds the object and keeps
  dispatching its frames.
\<close>

inductive reach :: "ChatServer \<Rightarrow> bool" where
  reach_init: "reach (init now)"
| reach_register:
    "reach s \<Longrightarrow> map_of (heap s) token = None \<Longrightarrow>
     register_user now s w uname token = Inr (r, s') \<Longrightarrow> reach s'"
| reach_message:
    "reach s \<Longrightarrow> map_of (heap s) u \<noteq> None \<Longrightarrow>
     handle_message now s u m = Inr (s', es) \<Longrightarrow> reach s'"
| reach_disconnect:
    "reach s \<Longrightarrow> map_of (heap s) u \<noteq> None \<Longrightarrow>
     disconnect_user now s u = (s', es) \<Longrightarrow> reach s'"

section \<open>Invariants of the server\<close>

text \<open>\<open>has_user\<close> of the room registered under a name; false when there is no such room.\<close>

definition in_room :: "ChatServer \<Rightarrow> string \<Rightarrow> uid \<Rightarrow> bool" where
  "in_room s R u = (case map_of (server_rooms s) R of None \<Rightarrow> False | Some r \<Rightarrow> has_user r u)"

text \<open>
  What holds between two operations: \<open>current_room\<close> and the rooms' sets agree, every user
  of a room is a user object, every room is registered under its own, non-empty name and
  keeps the history bound, General is registered, and every connected user is a user
  object.
\<close>

definition symmetric :: "ChatServer \<Rightarrow> bool" where
  "symmetric s = (\<forall>u x R. map_of (heap s) u = Some x \<longrightarrow>
       (current_room x = Some R) = in_room s R u)"

definition members_exist :: "ChatServer \<Rightarrow> bool" where
  "members_exist s = (\<forall>R u. in_room s R u \<longrightarrow> map_of (heap s) u \<noteq> None)"

definition rooms_ok :: "ChatServer \<Rightarrow> bool" where
  "rooms_ok s = (\<forall>R r. map_of (server_rooms s) R = Some r \<longrightarrow>
       name r = R \<and> R \<noteq> [] \<and> max_history r = 100 \<and> length (message_history r) \<le> 100
       \<and> distinct (room_users r))"

definition inv :: "ChatServer \<Rightarrow> bool" where
  "inv s = (symmetric s \<and> members_exist s \<and> rooms_ok s
     \<and> map_of (server_rooms s) ''General'' \<noteq> None
     \<and> (\<forall>u \<in> set (server_users s). map_of (heap s) u \<noteq> None))"

text \<open>
  The room General is registered and has no user. This holds in every reachable server
  (\<open>reach_general_empty\<close> below): an empty room is false as a condition, so \<open>join_room\<close>
  answers that it does not exist.
\<close>

definition general_empty :: "ChatServer \<Rightarrow> bool" where
  "general_empty s =
     (case map_of (server_rooms s) ''General'' of None \<Rightarrow> False | Some r \<Rightarrow> room_users r = [])"

section \<open>A run of the server\<close>

text \<open>
  The servers of a short run, used to evaluate the operations: alice connects and creates
  the room foo, Bob connects and joins it.
\<close>

definition alice :: User where
  "alice = \<lparr>username = ''alice'', websocket = 1, user_id = ''a1'', connected_at = ''t1'',
            current_room = None\<rparr>"

definition bob :: User where
  "bob = \<lparr>username = ''Bob'', websocket = 2, user_id = ''b2'', connected_at = ''t3'',
          current_room = None\<rparr>"

definition general :: Room where
  "general = new_Room ''t0'' ''General'' ''Sistema''"

definition foo :: Room where
  "foo = new_Room ''t2'' ''foo'' ''alice''"

definition srv1 :: ChatServer where
  "srv1 = \<lparr>heap = [(''a1'', alice)], server_users = [''a1''],
     server_rooms = [(''General'', general)], websocket_to_user = [(1, ''a1'')]\<rparr>"

definition srv2 :: ChatServer where
  "srv2 = \<lparr>heap = [(''a1'', alice\<lparr>current_room := Some ''foo''\<rparr>)], server_users = [''a1''],
     server_rooms = [(''General'', general), (''foo'', foo\<lparr>room_users := [''a1'']\<rparr>)],
     websocket_to_user = [(1, ''a1'')]\<rparr>"

definition srv3 :: ChatServer where
  "srv3 = \<lparr>heap = [(''a1'', alice\<lparr>current_room := Some ''foo''\<rparr>), (''b2'', bob)],
     server_users = [''a1'', ''b2''],
     server_rooms = [(''General'', general), (''foo'', foo\<lparr>room_users := [''a1'']\<rparr>)],
     websocket_to_user = [(1, ''a1''), (2, ''b2'')]\<rparr>"

definition srv4 :: ChatServer where
  "srv4 = \<lparr>heap = [(''a1'', alice\<lparr>current_room := Some ''foo''\<rparr>),
                   (''b2'', bob\<lparr>current_room := Some ''foo''\<rparr>)],
     server_users = [''a1'', ''b2''],
     server_rooms = [(''General'', general), (''foo'', foo\<lparr>room_users := [''a1'', ''b2'']\<rparr>)],
     websocket_to_user = [(1, ''a1''), (2, ''b2'')]\<rparr>"

text \<open>A message as \<open>from_json\<close> hands it to the loop, with the payload a dict.\<close>

definition msg :: "MessageType \<Rightarrow> (string \<times> json) list \<Rightarrow> Message" where
  "msg t kv = \<lparr>msg_type = t, payload = JObj kv, timestamp = JStr ''t''\<rparr>"

text \<open>
  A server in which alice is alone in General. The run above cannot get there (an empty
  room is refused by \<open>join_room\<close>); it shows what \<open>leave_room\<close> does to General.
\<close>

definition lonely :: ChatServer where
  "lonely = \<lparr>heap = [(''a1'', alice\<lparr>current_room := Some ''General''\<rparr>)], server_users = [''a1''],
     server_rooms = [(''General'', general\<lparr>room_users := [''a1'']\<rparr>)],
     websocket_to_user = [(1, ''a1'')]\<rparr>"

text \<open>The room foo with a full history.\<close>

definition full_room :: Room where
  "full_room = foo\<lparr>room_users := [''a1'', ''b2''],
     message_history := replicate 100 (HistoryEntry ''alice'' ''hi'' ''t5'')\<rparr>"

text \<open>The server of the run after alice has left foo.\<close>

definition srv5 :: ChatServer where
  "srv5 = \<lparr>heap = [(''a1'', alice), (''b2'', bob\<lparr>current_room := Some ''foo''\<rparr>)],
     server_users = [''a1'', ''b2''],
     server_rooms = [(''General'', general), (''foo'', foo\<lparr>room_users := [''b2'']\<rparr>)],
     websocket_to_user = [(1, ''a1''), (2, ''b2'')]\<rparr>"

section \<open>A JSON codec for the examples\<close>

text \<open>
  A codec to run the examples with. \<open>json_dumps\<close> writes a value the way \<open>json.dumps\<close> does
  with \<open>ensure_ascii=False\<close> and the default separators; \<open>json_loads\<close> reads JSON text
  without floats and answers \<open>None\<close> where the text is not JSON. The theorems about
  \<open>to_json\<close> and \<open>from_json\<close> are stated for every \<open>dumps\<close> and \<open>loads\<close>; these two
  stand for the library where a theorem is applied to a concrete frame.
\<close>

definition hex_digit :: "nat \<Rightarrow> char" where
  "hex_digit n = (if n < 10 then char_of (48 + n) else char_of (87 + n))"

definition escape_char :: "char \<Rightarrow> string" where
  "escape_char c =
     (if c = CHR 34 then [CHR 92, CHR 34]
      else if c = CHR 92 then [CHR 92, CHR 92]
      else if c = CHR 10 then [CHR 92, CHR ''n'']
      else if c = CHR 13 then [CHR 92, CHR ''r'']
      else if c = CHR 9 then [CHR 92, CHR ''t'']
      else if c = CHR 8 then [CHR 92, CHR ''b'']
      else if c = CHR 12 then [CHR 92, CHR ''f'']
      else if (of_char c :: nat) < 32
        then [CHR 92, CHR ''u'', CHR ''0'', CHR ''0'',
              hex_digit (of_char c div 16), hex_digit (of_char c mod 16)]
      else [c])"

definition dumps_str :: "string \<Rightarrow> string" where
  "dumps_str s = [CHR 34] @ concat (map escape_char s) @ [CHR 34]"

function show_nat :: "nat \<Rightarrow> string" where
  "show_nat n = (if n < 10 then [char_of (48 + n)]
                 else show_nat (n div 10) @ [char_of (48 + n mod 10)])"
  by pat_completeness auto

termination
  by (relation "measure id") auto

definition show_int :: "int \<Rightarrow> string" where
  "show_int i = (if i < 0 then CHR ''-'' # show_nat (nat (- i)) else show_nat (nat i))"

fun join :: "string \<Rightarrow> string list \<Rightarrow> string" where
  "join sep [] = []"
| "join sep [x] = x"
| "join sep (x # y # ys) = x @ sep @ join sep (y # ys)"

primrec json_dumps :: "json \<Rightarrow> string" where
  "json_dumps JNull = ''null''"
| "json_dumps (JBool b) = (if b then ''true'' else ''false'')"
| "json_dumps (JInt i) = show_int i"
| "json_dumps (JStr s) = dumps_str s"
| "json_dumps (JArr xs) = ''['' @ join '', '' (map json_dumps xs) @ '']''"
| "json_dumps (JObj kv) =
     ''{'' @ join '', '' (map (\<lambda>p. dumps_str (fst p) @ '': '' @ snd p)
                              (map (map_prod id json_dumps) kv)) @ ''}''"

definition is_ws :: "char \<Rightarrow> bool" where
  "is_ws c = (c = CHR '' '' \<or> c = CHR 9 \<or> c = CHR 10 \<or> c = CHR 13)"

definition skip_ws :: "string \<Rightarrow> string" where
  "skip_ws s = dropWhile is_ws s"

definition hex_val :: "char \<Rightarrow> nat option" where
  "hex_val c = (let n = (of_char c :: nat) in
     if 48 \<le> n \<and> n \<le> 57 then Some (n - 48)
     else if 97 \<le> n \<and> n \<le> 102 then Some (n - 87)
     else if 65 \<le> n \<and> n \<le> 70 then Some (n - 55)
     else None)"

definition unescape :: "char \<Rightarrow> char option" where
  "unescape e =
     (if e = CHR 34 \<or> e = CHR 92 \<or> e = CHR ''/'' then Some e
      else if e = CHR ''n'' then Some (CHR 10)
      else if e = CHR ''r'' then Some (CHR 13)
      else if e = CHR ''t'' then Some (CHR 9)
      else if e = CHR ''b'' then Some (CHR 8)
      else if e = CHR ''f'' then Some (CHR 12)
      else None)"

text \<open>The characters of a string after its opening quote, up to the closing one.\<close>

fun parse_str :: "string \<Rightarrow> string \<Rightarrow> (string \<times> string) option" where
  "parse_str acc [] = None"
| "parse_str acc (c # cs) =
     (if c = CHR 34 then Some (rev acc, cs)
      else if c = CHR 92 then
        (case cs of
           [] \<Rightarrow> None
         | e # cs' \<Rightarrow>
             (case unescape e of
                Some d \<Rightarrow> parse_str (d # acc) cs'
              | None \<Rightarrow>
                  (case cs' of
                     a # b # x # y # cs'' \<Rightarrow>
                       (if e = CHR ''u'' then
                          (case (hex_val a, hex_val b, hex_val x, hex_val y) of
                             (Some h3, Some h2, Some h1, Some h0) \<Rightarrow>
                               (if h3 = 0 \<and> h2 = 0
                                then parse_str (char_of (16 * h1 + h0) # acc) cs''
                                else None)
                           | _ \<Rightarrow> None)
                        else None)
                   | _ \<Rightarrow> None)))
      else if (of_char c :: nat) < 32 then None
      else parse_str (c # acc) cs)"

definition is_digit :: "char \<Rightarrow> bool" where
  "is_digit c = (48 \<le> (of_char c :: nat) \<and> (of_char c :: nat) \<le> 57)"

definition nat_of_digits :: "string \<Rightarrow> nat" where
  "nat_of_digits ds = foldl (\<lambda>n c. 10 * n + (of_char c - 48)) 0 ds"

text \<open>An integer: an optional sign, then 0 or digits without a leading 0; no fraction or exponent.\<close>

definition parse_int :: "string \<Rightarrow> (int \<times> string) option" where
  "parse_int s =
     (let neg = (s \<noteq> [] \<and> hd s = CHR ''-'');
          t = (if neg then tl s else s);
          ds = takeWhile is_digit t;
          rest = dropWhile is_digit t
      in if ds = [] \<or> (length ds > 1 \<and> hd ds = CHR ''0'') then None
         else if rest \<noteq> [] \<and> (hd rest = CHR ''.'' \<or> hd rest = CHR ''e'' \<or> hd rest = CHR ''E'')
         then None
         else Some ((if neg then - int (nat_of_digits ds) else int (nat_of_digits ds)), rest))"

definition strip_prefix :: "string \<Rightarrow> string \<Rightarrow> string option" where
  "strip_prefix p s = (if take (length p) s = p then Some (drop (length p) s) else None)"

text \<open>
  The reader of a value, of the elements of a list after \<open>[\<close> and of the members of a dict
  after \<open>{\<close>; the first argument bounds the calls still allowed, and \<open>json_loads\<close> gives as
  many as the text has characters.
\<close>

fun parse_value :: "nat \<Rightarrow> string \<Rightarrow> (json \<times> string) option"
and parse_elems :: "nat \<Rightarrow> json list \<Rightarrow> string \<Rightarrow> (json list \<times> string) option"
and parse_members :: "nat \<Rightarrow> (string \<times> json) list \<Rightarrow> string \<Rightarrow> ((string \<times> json) list \<times> string) option"
where
  "parse_value 0 s = None"
| "parse_value (Suc n) s =
     (case skip_ws s of
        [] \<Rightarrow> None
      | c # cs \<Rightarrow>
          if c = CHR 34 then
            (case parse_str [] cs of None \<Rightarrow> None | Some (x, rest) \<Rightarrow> Some (JStr x, rest))
          else if c = CHR ''['' then
            (case skip_ws cs of
               [] \<Rightarrow> None
             | d # ds \<Rightarrow>
                 if d = CHR '']'' then Some (JArr [], ds)
                 else (case parse_elems n [] cs of
                         None \<Rightarrow> None
                       | Some (xs, rest) \<Rightarrow> Some (JArr xs, rest)))
          else if c = CHR ''{'' then
            (case skip_ws cs of
               [] \<Rightarrow> None
             | d # ds \<Rightarrow>
                 if d = CHR ''}'' then Some (JObj [], ds)
                 else (case parse_members n [] cs of
                         None \<Rightarrow> None
                       | Some (kv, rest) \<Rightarrow> Some (JObj kv, rest)))
          else if c = CHR ''n'' then
            (case strip_prefix ''null'' (c # cs) of None \<Rightarrow> None | Some rest \<Rightarrow> Some (JNull, rest))
          else if c = CHR ''t'' then
            (case strip_prefix ''true'' (c # cs) of
               None \<Rightarrow> None | Some rest \<Rightarrow> Some (JBool True, rest))
          else if c = CHR ''f'' then
            (case strip_prefix ''false'' (c # cs) of
               None \<Rightarrow> None | Some rest \<Rightarrow> Some (JBool False, rest))
          else (case parse_int (c # cs) of None \<Rightarrow> None | Some (i, rest) \<Rightarrow> Some (JInt i, rest)))"
| "parse_elems 0 acc s = None"
| "parse_elems (Suc n) acc s =
     (case parse_value n s of
        None \<Rightarrow> None
      | Some (v, rest) \<Rightarrow>
          (case skip_ws rest of
             [] \<Rightarrow> None
           | c # cs \<Rightarrow>
               if c = CHR '']'' then Some (acc @ [v], cs)
               else if c = CHR '','' then parse_elems n (acc @ [v]) cs
               else None))"
| "parse_members 0 acc s = None"
| "parse_members (Suc n) acc s =
     (case skip_ws s of
        [] \<Rightarrow> None
      | q # qs \<Rightarrow>
          if q \<noteq> CHR 34 then None
          else
            (case parse_str [] qs of
               None \<Rightarrow> None
             | Some (k, rest) \<Rightarrow>
                 (case skip_ws rest of
                    [] \<Rightarrow> None
                  | c # cs \<Rightarrow>
                      if c \<noteq> CHR '':'' then None
                      else
                        (case parse_value n cs of
                           None \<Rightarrow> None
                         | Some (v, rest') \<Rightarrow>
                             (case skip_ws rest' of
                                [] \<Rightarrow> None
                              | d # ds \<Rightarrow>
                                  if d = CHR ''}'' then Some (AList.update k v acc, ds)
                                  else if d = CHR '','' then
                                    parse_members n (AList.update k v acc) ds
                                  else None)))))"

definition json_loads :: "string \<Rightarrow> json option" where
  "json_loads s =
     (case parse_value (Suc (length s)) s of
        None \<Rightarrow> None
      | Some (v, rest) \<Rightarrow> if skip_ws rest = [] then Some v else None)"

text \<open>A chat message as the server builds it.\<close>

definition hi_msg :: Message where
  "hi_msg = create_chat_message ''t5'' ''alice'' ''foo'' ''hi''"

section \<open>Lemmas\<close>

lemma tag_inj: "tag a = tag b \<Longrightarrow> a = b"
  by (cases a; cases b; simp)

lemma map_of_set_current_room:
  "map_of (set_current_room h u r) =
     (case map_of h u of None \<Rightarrow> map_of h | Some x \<Rightarrow> (map_of h)(u \<mapsto> x\<lparr>current_room := r\<rparr>))"
  by (simp add: set_current_room_def update_conv' split: option.splits)

lemma delete_room_dead: "delete_room now s n = (False, s, [])"
  by (simp add: delete_room_def bool_Room_def is_empty_def len_Room_def split: option.splits)

lemma leave_room_cases:
  "leave_room now s u R = (b, s', es) \<Longrightarrow>
     (\<not> b \<and> s' = s \<and> es = []) \<or>
     (b \<and> (\<exists>r. map_of (server_rooms s) R = Some r \<and> u \<in> set (room_users r)
          \<and> s' = s\<lparr>heap := set_current_room (heap s) u None,
                    server_rooms := AList.update R (r\<lparr>room_users := removeAll u (room_users r)\<rparr>)
                                      (server_rooms s)\<rparr>))"
  by (auto simp: leave_room_def remove_user_def delete_room_dead Let_def
      split: option.splits if_splits)

lemma inv_init: "inv (init now)"
  by (simp add: inv_def symmetric_def members_exist_def rooms_ok_def init_def in_room_def
      new_Room_def has_user_def)

lemma in_room_iff:
  "in_room s R u = (\<exists>r. map_of (server_rooms s) R = Some r \<and> u \<in> set (room_users r))"
  by (simp add: in_room_def has_user_def split: option.splits)

lemma inv_member_heap:
  "inv s \<Longrightarrow> in_room s R u \<Longrightarrow> \<exists>x. map_of (heap s) u = Some x"
  unfolding inv_def members_exist_def by blast

lemma inv_sym:
  "inv s \<Longrightarrow> map_of (heap s) u = Some x \<Longrightarrow> (current_room x = Some R) = in_room s R u"
  unfolding inv_def symmetric_def by blast

lemma inv_single_room:
  assumes "inv s" "in_room s R1 u" "in_room s R2 u" shows "R1 = R2"
proof -
  from inv_member_heap[OF assms(1,2)] obtain x where x: "map_of (heap s) u = Some x" by blast
  from inv_sym[OF assms(1) x] assms(2,3) have "current_room x = Some R1" "current_room x = Some R2"
    by simp_all
  then show ?thesis by simp
qed

lemma in_room_remove:
  "in_room (s\<lparr>heap := h, server_rooms := AList.update R (r\<lparr>room_users := removeAll u (room_users r)\<rparr>)
                                      (server_rooms s)\<rparr>) R' v
   = (if R' = R then v \<in> set (room_users r) \<and> v \<noteq> u else in_room s R' v)"
  by (auto simp: in_room_iff update_conv')

lemma inv_remove:
  assumes "inv s" "map_of (server_rooms s) R = Some r" "u \<in> set (room_users r)"
  shows "inv (s\<lparr>heap := set_current_room (heap s) u None,
                server_rooms := AList.update R (r\<lparr>room_users := removeAll u (room_users r)\<rparr>)
                                      (server_rooms s)\<rparr>)"
proof -
  have inR: "in_room s R u" using assms(2,3) by (simp add: in_room_iff)
  from inv_member_heap[OF assms(1) inR] obtain x where x: "map_of (heap s) u = Some x" by blast
  from inv_sym[OF assms(1) x] inR have cur: "current_room x = Some R" by simp
  let ?s = "s\<lparr>heap := set_current_room (heap s) u None,
                server_rooms := AList.update R (r\<lparr>room_users := removeAll u (room_users r)\<rparr>)
                                      (server_rooms s)\<rparr>"
  have H: "map_of (heap ?s) = (map_of (heap s))(u \<mapsto> x\<lparr>current_room := None\<rparr>)"
    using x by (simp add: map_of_set_current_room)
  have Rm: "map_of (server_rooms ?s) = (map_of (server_rooms s))(R \<mapsto> r\<lparr>room_users := removeAll u (room_users r)\<rparr>)"
    by (simp add: update_conv')
  have 1: "symmetric ?s"
    unfolding symmetric_def
  proof (intro allI impI)
    fix v y R'
    assume y: "map_of (heap ?s) v = Some y"
    show "(current_room y = Some R') = in_room ?s R' v"
    proof (cases "v = u")
      case True
      then have "current_room y = None" using y H by auto
      moreover have "\<not> in_room ?s R' u"
      proof (cases "R' = R")
        case True then show ?thesis by (simp add: in_room_remove)
      next
        case False
        then have "\<not> in_room s R' u" using inv_single_room[OF assms(1) _ inR] by blast
        then show ?thesis using False by (simp add: in_room_remove)
      qed
      ultimately show ?thesis using True by simp
    next
      case False
      then have y': "map_of (heap s) v = Some y" using y H by auto
      have "in_room ?s R' v = (if R' = R then v \<in> set (room_users r) \<and> v \<noteq> u else in_room s R' v)"
        by (rule in_room_remove)
      also have "\<dots> = in_room s R' v"
        using False assms(2) by (auto simp: in_room_iff)
      finally have "in_room ?s R' v = in_room s R' v" .
      then show ?thesis using inv_sym[OF assms(1) y'] by simp
    qed
  qed
  have 2: "members_exist ?s"
    unfolding members_exist_def
  proof (intro allI impI)
    fix R' v assume "in_room ?s R' v"
    then have "in_room s R' v \<or> in_room s R v"
      using assms(2) by (auto simp: in_room_remove in_room_iff[of s] split: if_splits)
    then obtain y where "map_of (heap s) v = Some y"
      using inv_member_heap[OF assms(1)] by blast
    then show "map_of (heap ?s) v \<noteq> None" unfolding H by simp
  qed
  have 3: "rooms_ok ?s"
    unfolding rooms_ok_def Rm using assms unfolding inv_def rooms_ok_def
    by (auto simp: distinct_removeAll split: if_splits)
  have 4: "map_of (server_rooms ?s) ''General'' \<noteq> None"
    unfolding Rm using assms by (auto simp: inv_def)
  have 5: "\<forall>v \<in> set (server_users ?s). map_of (heap ?s) v \<noteq> None"
    unfolding H using assms by (auto simp: inv_def)
  show ?thesis unfolding inv_def using 1 2 3 4 5 by blast
qed

lemma inv_leave_room: "inv s \<Longrightarrow> leave_room now s u R = (b, s', es) \<Longrightarrow> inv s'"
  by (auto dest!: leave_room_cases intro: inv_remove)

lemma in_room_add:
  "in_room (s\<lparr>heap := h, server_rooms := AList.update R (r\<lparr>room_users := room_users r @ [u]\<rparr>)
                                      (server_rooms s)\<rparr>) R' v
   = (if R' = R then v \<in> set (room_users r) \<or> v = u else in_room s R' v)"
  by (auto simp: in_room_iff update_conv')

lemma inv_room_name_nonempty:
  "inv s \<Longrightarrow> in_room s R u \<Longrightarrow> R \<noteq> []"
  unfolding inv_def rooms_ok_def in_room_iff by blast

lemma inv_roomD:
  "inv s \<Longrightarrow> map_of (server_rooms s) R = Some r \<Longrightarrow>
     name r = R \<and> R \<noteq> [] \<and> max_history r = 100 \<and> length (message_history r) \<le> 100
     \<and> distinct (room_users r)"
  unfolding inv_def rooms_ok_def by blast

lemma inv_add:
  assumes "inv s" "map_of (heap s) u = Some x" "current_room x = None"
    and r: "R \<noteq> []" "name r = R" "max_history r = 100" "length (message_history r) \<le> 100"
       "distinct (room_users r)" "u \<notin> set (room_users r)"
    and old: "map_of (server_rooms s) R = Some r \<or> (map_of (server_rooms s) R = None \<and> room_users r = [])"
  shows "inv (s\<lparr>heap := set_current_room (heap s) u (Some R),
                server_rooms := AList.update R (r\<lparr>room_users := room_users r @ [u]\<rparr>)
                                      (server_rooms s)\<rparr>)"
proof -
  let ?s = "s\<lparr>heap := set_current_room (heap s) u (Some R),
                server_rooms := AList.update R (r\<lparr>room_users := room_users r @ [u]\<rparr>)
                                      (server_rooms s)\<rparr>"
  have H: "map_of (heap ?s) = (map_of (heap s))(u \<mapsto> x\<lparr>current_room := Some R\<rparr>)"
    using assms(2) by (simp add: map_of_set_current_room)
  have Rm: "map_of (server_rooms ?s) = (map_of (server_rooms s))(R \<mapsto> r\<lparr>room_users := room_users r @ [u]\<rparr>)"
    by (simp add: update_conv')
  have nowhere: "\<not> in_room s R' u" for R'
    using inv_sym[OF assms(1,2), of R'] assms(3) by simp
  have oldR: "in_room s R v = (v \<in> set (room_users r))" for v
    using old by (auto simp: in_room_iff)
  have 1: "symmetric ?s"
    unfolding symmetric_def
  proof (intro allI impI)
    fix v y R'
    assume y: "map_of (heap ?s) v = Some y"
    have ir: "in_room ?s R' v = (if R' = R then v \<in> set (room_users r) \<or> v = u else in_room s R' v)"
      by (rule in_room_add)
    show "(current_room y = Some R') = in_room ?s R' v"
    proof (cases "v = u")
      case True
      then have "current_room y = Some R" using y H by auto
      then show ?thesis using True ir nowhere by auto
    next
      case False
      then have y': "map_of (heap s) v = Some y" using y H by auto
      have "in_room ?s R' v = in_room s R' v"
        using False ir oldR by auto
      then show ?thesis using inv_sym[OF assms(1) y'] by simp
    qed
  qed
  have 2: "members_exist ?s"
    unfolding members_exist_def
  proof (intro allI impI)
    fix R' v assume "in_room ?s R' v"
    then have "in_room s R' v \<or> in_room s R v \<or> v = u"
      using oldR by (auto simp: in_room_add split: if_splits)
    then obtain y where "map_of (heap s) v = Some y"
      using inv_member_heap[OF assms(1)] assms(2) by blast
    then show "map_of (heap ?s) v \<noteq> None" unfolding H by simp
  qed
  have 3: "rooms_ok ?s"
    unfolding rooms_ok_def Rm using r inv_roomD[OF assms(1)]
    by (auto split: if_splits)
  have 4: "map_of (server_rooms ?s) ''General'' \<noteq> None"
    unfolding Rm using assms(1) by (auto simp: inv_def)
  have 5: "\<forall>v \<in> set (server_users ?s). map_of (heap ?s) v \<noteq> None"
    unfolding H using assms(1) by (auto simp: inv_def)
  show ?thesis unfolding inv_def using 1 2 3 4 5 by blast
qed

lemma get_current_room_Some:
  "map_of h u = Some x \<Longrightarrow> get_current_room h u = current_room x"
  by (simp add: get_current_room_def)

lemma leave_current_inv:
  assumes "inv s" "map_of (heap s) u = Some x" "leave_current now s u = (s1, e)"
  shows "inv s1 \<and> (\<exists>y. map_of (heap s1) u = Some y \<and> current_room y = None)"
proof (cases "current_room x")
  case None
  then show ?thesis using assms by (simp add: leave_current_def get_current_room_Some)
next
  case (Some R)
  then have inR: "in_room s R u" using inv_sym[OF assms(1,2)] by simp
  then obtain r where r: "map_of (server_rooms s) R = Some r" "u \<in> set (room_users r)"
    by (auto simp: in_room_iff)
  obtain b es where lr: "leave_room now s u R = (b, s1, es)"
    using assms Some by (auto simp: leave_current_def get_current_room_Some split: prod.splits)
  have b: "b" using lr r
    by (auto simp: leave_room_def remove_user_def bool_Room_def len_Room_def delete_room_dead Let_def
        split: if_splits)
  with leave_room_cases[OF lr] r
  have s1: "s1 = s\<lparr>heap := set_current_room (heap s) u None,
                    server_rooms := AList.update R (r\<lparr>room_users := removeAll u (room_users r)\<rparr>)
                                      (server_rooms s)\<rparr>" by auto
  have "inv s1" unfolding s1 by (rule inv_remove[OF assms(1) r])
  moreover have "map_of (heap s1) u = Some (x\<lparr>current_room := None\<rparr>)"
    unfolding s1 using assms(2) by (simp add: map_of_set_current_room)
  ultimately show ?thesis by simp
qed

lemma inv_cur_truthy:
  "inv s \<Longrightarrow> map_of (heap s) u = Some x \<Longrightarrow> str_truthy (current_room x) = (current_room x \<noteq> None)"
  using inv_sym[of s u x] inv_room_name_nonempty[of s _ u]
  by (cases "current_room x") auto

lemma inv_join_room:
  assumes "inv s" "map_of (heap s) u = Some x" "join_room now s u R = (b, s', es)"
  shows "inv s'"
proof -
  define pre where "pre = (if str_truthy (get_current_room (heap s) u)
                         \<and> get_current_room (heap s) u \<noteq> Some R
                      then leave_current now s u else (s, []))"
  obtain s1 e0 where pre: "pre = (s1, e0)" by (cases pre)
  have s1: "inv s1 \<and> (\<exists>y. map_of (heap s1) u = Some y \<and> (current_room y = None \<or> current_room y = Some R))"
  proof (cases "str_truthy (current_room x) \<and> current_room x \<noteq> Some R")
    case True
    then have "leave_current now s u = (s1, e0)"
      using pre assms(2) by (simp add: pre_def get_current_room_Some)
    from leave_current_inv[OF assms(1,2) this] show ?thesis by blast
  next
    case False
    then have "s1 = s" using pre assms(2) by (auto simp: pre_def get_current_room_Some)
    moreover have "current_room x = None \<or> current_room x = Some R"
      using False inv_cur_truthy[OF assms(1,2)] by auto
    ultimately show ?thesis using assms(1,2) by simp
  qed
  then obtain y where y: "map_of (heap s1) u = Some y" "current_room y = None \<or> current_room y = Some R"
    by blast
  have i1: "inv s1" using s1 by simp
  show ?thesis
  proof (cases "map_of (server_rooms s1) R")
    case None
    then have "s' = s1" using assms(3) pre
      by (simp add: join_room_def pre_def[symmetric])
    then show ?thesis using i1 by simp
  next
    case (Some r)
    note rd = inv_roomD[OF i1 Some]
    show ?thesis
    proof (cases "bool_Room r \<and> u \<notin> set (room_users r)")
      case False
      then have "s' = s1" using assms(3) pre Some
        by (auto simp: join_room_def pre_def[symmetric] add_user_def split: if_splits)
      then show ?thesis using i1 by simp
    next
      case True
      then have s': "s' = s1\<lparr>heap := set_current_room (heap s1) u (Some R),
                server_rooms := AList.update R (r\<lparr>room_users := room_users r @ [u]\<rparr>)
                                      (server_rooms s1)\<rparr>"
        using assms(3) pre Some rd
        by (auto simp: join_room_def pre_def[symmetric] add_user_def Let_def split: if_splits)
      have "\<not> in_room s1 R u" using True Some by (simp add: in_room_iff)
      then have cur: "current_room y = None" using y inv_sym[OF i1 y(1), of R] by auto
      show ?thesis unfolding s'
        using inv_add[OF i1 y(1) cur, of R r] rd True Some by blast
    qed
  qed
qed

lemma inv_create_room_and_join:
  assumes "inv s" "map_of (heap s) u = Some x" "R \<noteq> []"
    "create_room_and_join now s R u = (b, s', es)"
  shows "inv s'"
proof -
  define pre where "pre = (if str_truthy (get_current_room (heap s) u)
                      then leave_current now s u else (s, []))"
  obtain s1 e0 where pre: "pre = (s1, e0)" by (cases pre)
  have s1: "inv s1 \<and> (\<exists>y. map_of (heap s1) u = Some y \<and> current_room y = None)"
  proof (cases "str_truthy (current_room x)")
    case True
    then have "leave_current now s u = (s1, e0)"
      using pre assms(2) by (simp add: pre_def get_current_room_Some)
    from leave_current_inv[OF assms(1,2) this] show ?thesis by blast
  next
    case False
    then have "s1 = s" using pre assms(2) by (auto simp: pre_def get_current_room_Some)
    moreover have "current_room x = None"
      using False inv_cur_truthy[OF assms(1,2)] by auto
    ultimately show ?thesis using assms(1,2) by simp
  qed
  then obtain y where y: "map_of (heap s1) u = Some y" "current_room y = None"
    by blast
  have i1: "inv s1" using s1 by simp
  show ?thesis
  proof (cases "map_of (server_rooms s1) R")
    case (Some r)
    then have "s' = s1" using assms(4) pre
      by (simp add: create_room_and_join_def pre_def[symmetric])
    then show ?thesis using i1 by simp
  next
    case None
    define r where "r = new_Room now R (get_username (heap s1) u)"
    have s': "s' = s1\<lparr>heap := set_current_room (heap s1) u (Some R),
                server_rooms := AList.update R (r\<lparr>room_users := room_users r @ [u]\<rparr>)
                                      (server_rooms s1)\<rparr>"
      using assms(4) pre None
      by (auto simp: create_room_and_join_def pre_def[symmetric] add_user_def Let_def r_def new_Room_def)
    show ?thesis unfolding s'
      by (rule inv_add[OF i1 y]) (use None assms(3) in \<open>simp_all add: r_def new_Room_def\<close>)
  qed
qed

lemma length_slice_from_neg:
  "0 < n \<Longrightarrow> length (slice_from (- int n) xs) = min n (length xs)"
  by (auto simp: slice_from_def)

lemma add_message_to_history_fields:
  "name (add_message_to_history now r a c) = name r"
  "room_users (add_message_to_history now r a c) = room_users r"
  "max_history (add_message_to_history now r a c) = max_history r"
  by (simp_all add: add_message_to_history_def Let_def)

lemma add_message_to_history_length:
  "max_history r = 100 \<Longrightarrow> length (message_history (add_message_to_history now r a c)) \<le> 100"
  by (auto simp: add_message_to_history_def Let_def slice_from_def)

lemma inv_update_history:
  assumes "inv s" "map_of (server_rooms s) R = Some r"
    "name r' = name r" "room_users r' = room_users r" "max_history r' = max_history r"
    "length (message_history r') \<le> 100"
  shows "inv (s\<lparr>server_rooms := AList.update R r' (server_rooms s)\<rparr>)"
proof -
  let ?s = "s\<lparr>server_rooms := AList.update R r' (server_rooms s)\<rparr>"
  have Rm: "map_of (server_rooms ?s) = (map_of (server_rooms s))(R \<mapsto> r')"
    by (simp add: update_conv')
  have ir: "in_room ?s R' v = in_room s R' v" for R' v
    using assms(2,4) by (auto simp: in_room_iff update_conv')
  have 1: "symmetric ?s" using assms(1) unfolding inv_def symmetric_def ir by simp
  have 2: "members_exist ?s" using assms(1) unfolding inv_def members_exist_def ir by simp
  have 3: "rooms_ok ?s"
    unfolding rooms_ok_def Rm using assms(3-6) inv_roomD[OF assms(1)] inv_roomD[OF assms(1,2)]
    by (auto split: if_splits)
  have 4: "map_of (server_rooms ?s) ''General'' \<noteq> None"
    unfolding Rm using assms(1) by (auto simp: inv_def)
  have 5: "\<forall>v \<in> set (server_users ?s). map_of (heap ?s) v \<noteq> None"
    using assms(1) by (auto simp: inv_def)
  show ?thesis unfolding inv_def using 1 2 3 4 5 by blast
qed

lemma inv_broadcast_message:
  assumes "inv s" "broadcast_message now s u R c = (b, s', es)"
  shows "inv s'"
proof (cases "map_of (server_rooms s) R")
  case None
  then show ?thesis using assms by (simp add: broadcast_message_def)
next
  case (Some r)
  show ?thesis
  proof (cases "bool_Room r \<and> has_user r u")
    case False
    then show ?thesis using assms Some by (auto simp: broadcast_message_def split: if_splits)
  next
    case True
    then have "s' = s\<lparr>server_rooms := AList.update R
        (add_message_to_history now r (get_username (heap s) u) c) (server_rooms s)\<rparr>"
      using assms(2) Some by (auto simp: broadcast_message_def Let_def)
    then show ?thesis
      using inv_update_history[OF assms(1) Some, of "add_message_to_history now r (get_username (heap s) u) c"]
        inv_roomD[OF assms(1) Some]
      by (simp add: add_message_to_history_fields add_message_to_history_length)
  qed
qed

lemma inv_register_user:
  assumes "inv s" "map_of (heap s) token = None" "register_user now s w v token = Inr (r, s')"
  shows "inv s'"
proof (cases r)
  case None
  then have "s' = s" using assms(3)
    by (auto simp: register_user_def split: sum.splits if_splits)
  then show ?thesis using assms(1) by simp
next
  case (Some t)
  then obtain n where s': "s' = s\<lparr>heap := AList.update token
                  \<lparr>username = n, websocket = w, user_id = token, connected_at = now,
                   current_room = None\<rparr> (heap s),
              server_users := (if token \<in> set (server_users s) then server_users s
                               else server_users s @ [token]),
              websocket_to_user := AList.update w token (websocket_to_user s)\<rparr>"
    using assms(3) by (auto simp: register_user_def split: sum.splits if_splits)
  have H: "map_of (heap s') = (map_of (heap s))(token \<mapsto> \<lparr>username = n, websocket = w, user_id = token, connected_at = now,
                   current_room = None\<rparr>)"
    unfolding s' by (simp add: update_conv')
  have ir: "in_room s' R' v = in_room s R' v" for R' v
    unfolding s' by (simp add: in_room_def)
  have fresh: "\<not> in_room s R' token" for R'
    using inv_member_heap[OF assms(1), of R' token] assms(2) by auto
  have 1: "symmetric s'"
    unfolding symmetric_def ir H using fresh inv_sym[OF assms(1)]
    by (auto split: if_splits)
  have 2: "members_exist s'"
    unfolding members_exist_def ir H using inv_member_heap[OF assms(1)] by auto
  have 3: "rooms_ok s'"
    using assms(1) unfolding inv_def rooms_ok_def s' by simp
  have 4: "map_of (server_rooms s') ''General'' \<noteq> None"
    using assms(1) unfolding inv_def s' by simp
  have 5: "\<forall>v \<in> set (server_users s'). map_of (heap s') v \<noteq> None"
    unfolding H using assms(1) unfolding inv_def s' by (auto split: if_splits)
  show ?thesis unfolding inv_def using 1 2 3 4 5 by blast
qed

lemma inv_drop_user:
  assumes "inv s"
  shows "inv (s\<lparr>server_users := removeAll u (server_users s), websocket_to_user := wtu\<rparr>)"
  using assms unfolding inv_def symmetric_def members_exist_def rooms_ok_def in_room_def
  by simp

lemma inv_disconnect_user:
  assumes "inv s" "map_of (heap s) u = Some x" "disconnect_user now s u = (s', es)"
  shows "inv s'"
proof -
  define pre where "pre = (if str_truthy (get_current_room (heap s) u)
                     then leave_current now s u else (s, []))"
  obtain s1 e0 where pre: "pre = (s1, e0)" by (cases pre)
  have "inv s1"
  proof (cases "str_truthy (get_current_room (heap s) u)")
    case True
    then have "leave_current now s u = (s1, e0)" using pre by (simp add: pre_def)
    from leave_current_inv[OF assms(1,2) this] show ?thesis by blast
  next
    case False
    then show ?thesis using pre assms(1) by (simp add: pre_def)
  qed
  moreover have "\<exists>wtu. s' = s1\<lparr>server_users := removeAll u (server_users s1), websocket_to_user := wtu\<rparr>"
    using assms(3) pre by (auto simp: disconnect_user_def pre_def[symmetric])
  ultimately show ?thesis using inv_drop_user by blast
qed

lemma inv_leave_current:
  "inv s \<Longrightarrow> leave_current now s u = (s', es) \<Longrightarrow> inv s'"
  by (auto simp: leave_current_def split: option.splits prod.splits dest: inv_leave_room)

lemma inv_handle_message:
  assumes "inv s" "map_of (heap s) u = Some x" "handle_message now s u m = Inr (s', es)"
  shows "inv s'"
proof (cases "msg_type m")
  case CREATE_ROOM
  then show ?thesis using assms
    by (auto simp: handle_message_def CreateRoomHandler_def
        split: sum.splits if_splits prod.splits dest: inv_create_room_and_join)
next
  case JOIN_ROOM
  then show ?thesis using assms
    by (auto simp: handle_message_def JoinRoomHandler_def
        split: sum.splits if_splits prod.splits dest: inv_join_room)
next
  case LEAVE_ROOM
  then show ?thesis using assms
    by (auto simp: handle_message_def LeaveRoomHandler_def leave_room_key_def
        split: sum.splits if_splits prod.splits json.splits dest: inv_leave_room inv_leave_current)
next
  case CHAT_MESSAGE
  then show ?thesis using assms
    by (auto simp: handle_message_def ChatMessageHandler_def broadcast_message_key_def Let_def
        split: sum.splits if_splits prod.splits json.splits option.splits dest: inv_broadcast_message)
next
  case DISCONNECT
  then show ?thesis using assms
    by (auto simp: handle_message_def DisconnectHandler_def dest: inv_disconnect_user)
qed (use assms in \<open>auto simp: handle_message_def ListRoomsHandler_def\<close>)

lemma reach_inv: "reach s \<Longrightarrow> inv s"
proof (induction rule: reach.induct)
  case (reach_init now)
  show ?case by (rule inv_init)
next
  case (reach_register s token now w uname r s')
  then show ?case using inv_register_user by blast
next
  case (reach_message s u now m s' es)
  then show ?case using inv_handle_message by blast
next
  case (reach_disconnect s u now s' es)
  then show ?case using inv_disconnect_user by blast
qed

lemma srv1_step: "register_user ''t1'' (init ''t0'') 1 (JStr ''alice'') ''a1'' = Inr (Some ''a1'', srv1)"
  by code_simp

lemma srv2_step: "map_sum id fst (handle_message ''t2'' srv1 ''a1'' (msg CREATE_ROOM [(''room_name'', JStr ''foo'')])) = Inr srv2"
  by code_simp

lemma srv3_step: "register_user ''t3'' srv2 2 (JStr '' Bob '') ''b2'' = Inr (Some ''b2'', srv3)"
  by code_simp

lemma srv4_step: "map_sum id fst (handle_message ''t4'' srv3 ''b2'' (msg JOIN_ROOM [(''room_name'', JStr ''foo'')])) = Inr srv4"
  by code_simp

lemma map_sum_fst_InrD: "map_sum id fst x = Inr s \<Longrightarrow> \<exists>es. x = Inr (s, es)"
  by (cases x) auto

lemma reach_srv1: "reach srv1"
  by (rule reach_register[OF reach_init _ srv1_step]) (simp add: init_def)

lemma reach_srv2: "reach srv2"
  using map_sum_fst_InrD[OF srv2_step] reach_message[OF reach_srv1, of "''a1''"] by (auto simp: srv1_def)

lemma reach_srv3: "reach srv3"
  by (rule reach_register[OF reach_srv2 _ srv3_step]) (simp add: srv2_def)

lemma reach_srv4: "reach srv4"
  using map_sum_fst_InrD[OF srv4_step] reach_message[OF reach_srv3, of "''b2''"] by (auto simp: srv3_def)

lemma add_message_to_history_fifo:
  assumes "0 < max_history r"
  shows "message_history (add_message_to_history now r a c)
         = drop (Suc (length (message_history r)) - nat (max_history r))
             (message_history r @ [HistoryEntry a c now])"
proof -
  have n: "nat (1 + int k) = Suc k" for k by simp
  show ?thesis
    using assms by (auto simp: add_message_to_history_def Let_def slice_from_def nat_diff_distrib' n)
qed

lemma leave_room_keeps_rooms:
  "map_of (server_rooms s) R' \<noteq> None \<Longrightarrow>
     map_of (server_rooms (fst (snd (leave_room now s u R)))) R' \<noteq> None"
proof -
  assume a: "map_of (server_rooms s) R' \<noteq> None"
  obtain b s' es where l: "leave_room now s u R = (b, s', es)" by (cases "leave_room now s u R")
  from leave_room_cases[OF l] a have "map_of (server_rooms s') R' \<noteq> None"
    by (auto simp: update_conv')
  then show ?thesis using l by simp
qed

lemma msg_type_mk_Message: "msg_type (mk_Message now t p ts) = t"
  by (simp add: mk_Message_def)

lemma broadcast_None: "broadcast r m None = map (\<lambda>v. (ToUser v, m)) (room_users r)"
  by (induction "room_users r" arbitrary: r) (auto simp: broadcast_def send_message_def)

lemma concat_map_single: "concat (map (\<lambda>v. [f v]) xs) = map f xs"
  by (induction xs) auto

lemma broadcast_eq:
  "broadcast r m ex = map (\<lambda>v. (ToUser v, m)) (filter (\<lambda>v. Some v \<noteq> ex) (room_users r))"
  by (cases ex) (auto simp: broadcast_def send_message_def concat_map_single intro: filter_cong)

lemma broadcast_to_all_eq:
  "broadcast_to_all s m = map (\<lambda>v. (ToUser v, m)) (server_users s)"
  by (simp add: broadcast_to_all_def send_message_def concat_map_single)

lemma broadcast_message_member:
  assumes "map_of (server_rooms s) R = Some r" "u \<in> set (room_users r)"
  shows "broadcast_message now s u R c =
     (True,
      s\<lparr>server_rooms := AList.update R
           (add_message_to_history now r (get_username (heap s) u) c) (server_rooms s)\<rparr>,
      map (\<lambda>v. (ToUser v, create_chat_message now (get_username (heap s) u) R c)) (room_users r))"
  using assms
  by (auto simp: broadcast_message_def bool_Room_def len_Room_def has_user_def Let_def
      broadcast_eq add_message_to_history_fields)

lemma leave_room_effect_types:
  assumes "leave_room now s u R = (b, s', es)" "(t, m) \<in> set es"
  shows "msg_type m = USER_LEFT \<or> msg_type m = ROOM_USERS \<or> msg_type m = ROOMS_LIST"
  using assms
  by (auto simp: leave_room_def delete_room_dead Let_def broadcast_eq broadcast_to_all_eq
      create_user_left_def create_room_users_def create_rooms_list_def msg_type_mk_Message
      split: option.splits if_splits prod.splits bool.splits)

lemma leave_current_effect_types:
  assumes "leave_current now s u = (s', es)" "(t, m) \<in> set es"
  shows "msg_type m = USER_LEFT \<or> msg_type m = ROOM_USERS \<or> msg_type m = ROOMS_LIST"
  using assms leave_room_effect_types
  by (fastforce simp: leave_current_def split: option.splits prod.splits)

lemma join_room_success:
  assumes "join_room now s u R = (True, s', es)"
    and pre: "(if str_truthy (get_current_room (heap s) u)
                  \<and> get_current_room (heap s) u \<noteq> Some R
               then leave_current now s u else (s, [])) = (s1, e0)"
  shows "\<exists>r. map_of (server_rooms s1) R = Some r \<and> u \<notin> set (room_users r)
       \<and> s' = s1\<lparr>heap := set_current_room (heap s1) u (Some (name r)),
                  server_rooms := AList.update R (r\<lparr>room_users := room_users r @ [u]\<rparr>)
                                    (server_rooms s1)\<rparr>
       \<and> es = e0
           @ broadcast (r\<lparr>room_users := room_users r @ [u]\<rparr>)
               (create_user_joined now (get_username (heap s') u) R) (Some u)
           @ broadcast (r\<lparr>room_users := room_users r @ [u]\<rparr>)
               (create_room_users now R (usernames (heap s') (r\<lparr>room_users := room_users r @ [u]\<rparr>))) None
           @ send_message u
               (create_system_message now
                  (''Te has unido a la sala '' @ [CHR 39] @ R @ [CHR 39]) (Some R))
           @ broadcast_to_all s' (create_rooms_list now (get_rooms_info s'))"
  using assms(1) unfolding join_room_def pre
  by (auto simp: add_user_def Let_def split: option.splits if_splits)

lemma MessageType_of_tag: "MessageType_of (JStr (tag t)) = Inr t"
  by (cases t) (simp_all add: all_types_def)

lemma MessageType_of_unknown:
  assumes "t \<notin> set (map (\<lambda>k. JStr (tag k)) all_types)"
  shows "MessageType_of t = Inl ValueError"
proof (cases t)
  case (JStr v)
  have "find (\<lambda>k. tag k = v) all_types = None"
    using assms JStr by (auto simp: find_None_iff)
  then show ?thesis using JStr by simp
qed simp_all

lemma ge_leave_room:
  "general_empty s \<Longrightarrow> leave_room now s u R = (b, s', es) \<Longrightarrow> general_empty s'"
  by (auto dest!: leave_room_cases simp: general_empty_def update_conv'
      split: option.splits if_splits)

lemma ge_leave_current:
  "general_empty s \<Longrightarrow> leave_current now s u = (s', es) \<Longrightarrow> general_empty s'"
  by (auto simp: leave_current_def split: option.splits prod.splits dest: ge_leave_room)

lemma ge_join_room:
  assumes "general_empty s" "join_room now s u R = (b, s', es)"
  shows "general_empty s'"
proof -
  obtain s1 e0 where pre: "(if str_truthy (get_current_room (heap s) u)
                  \<and> get_current_room (heap s) u \<noteq> Some R
               then leave_current now s u else (s, [])) = (s1, e0)"
    by (cases "if str_truthy (get_current_room (heap s) u)
                  \<and> get_current_room (heap s) u \<noteq> Some R
               then leave_current now s u else (s, [])")
  have g1: "general_empty s1"
    using pre assms(1) ge_leave_current by (auto split: if_splits)
  show ?thesis
    using assms(2) g1 unfolding join_room_def pre
    by (auto simp: add_user_def Let_def general_empty_def update_conv' bool_Room_def len_Room_def
        split: option.splits if_splits)
qed

lemma ge_create_room_and_join:
  assumes "general_empty s" "create_room_and_join now s R u = (b, s', es)"
  shows "general_empty s'"
proof -
  obtain s1 e0 where pre: "(if str_truthy (get_current_room (heap s) u)
               then leave_current now s u else (s, [])) = (s1, e0)"
    by (cases "if str_truthy (get_current_room (heap s) u)
               then leave_current now s u else (s, [])")
  have g1: "general_empty s1"
    using pre assms(1) ge_leave_current by (auto split: if_splits)
  show ?thesis
    using assms(2) g1 unfolding create_room_and_join_def pre
    by (auto simp: add_user_def Let_def general_empty_def update_conv'
        split: option.splits if_splits)
qed

lemma ge_broadcast_message:
  "general_empty s \<Longrightarrow> broadcast_message now s u R c = (b, s', es) \<Longrightarrow> general_empty s'"
  by (auto simp: broadcast_message_def general_empty_def update_conv' Let_def
      add_message_to_history_fields split: option.splits if_splits)

lemma ge_disconnect_user:
  "general_empty s \<Longrightarrow> disconnect_user now s u = (s', es) \<Longrightarrow> general_empty s'"
proof -
  assume a: "general_empty s" "disconnect_user now s u = (s', es)"
  obtain s1 e0 where pre: "(if str_truthy (get_current_room (heap s) u)
                     then leave_current now s u else (s, [])) = (s1, e0)"
    by (cases "if str_truthy (get_current_room (heap s) u)
                     then leave_current now s u else (s, [])")
  have "general_empty s1" using pre a(1) ge_leave_current by (auto split: if_splits)
  then show ?thesis using a(2) unfolding disconnect_user_def pre
    by (auto simp: general_empty_def)
qed

lemma ge_handle_message:
  assumes "general_empty s" "handle_message now s u m = Inr (s', es)"
  shows "general_empty s'"
proof (cases "msg_type m")
  case CREATE_ROOM
  then show ?thesis using assms
    by (auto simp: handle_message_def CreateRoomHandler_def
        split: sum.splits if_splits prod.splits dest: ge_create_room_and_join)
next
  case JOIN_ROOM
  then show ?thesis using assms
    by (auto simp: handle_message_def JoinRoomHandler_def
        split: sum.splits if_splits prod.splits dest: ge_join_room)
next
  case LEAVE_ROOM
  then show ?thesis using assms
    by (auto simp: handle_message_def LeaveRoomHandler_def leave_room_key_def
        split: sum.splits if_splits prod.splits json.splits dest: ge_leave_room ge_leave_current)
next
  case CHAT_MESSAGE
  then show ?thesis using assms
    by (auto simp: handle_message_def ChatMessageHandler_def broadcast_message_key_def Let_def
        split: sum.splits if_splits prod.splits json.splits option.splits dest: ge_broadcast_message)
next
  case DISCONNECT
  then show ?thesis using assms
    by (auto simp: handle_message_def DisconnectHandler_def dest: ge_disconnect_user)
qed (use assms in \<open>auto simp: handle_message_def ListRoomsHandler_def\<close>)

lemma reach_general_empty: "reach s \<Longrightarrow> general_empty s"
proof (induction rule: reach.induct)
  case (reach_init now)
  show ?case by (simp add: general_empty_def init_def new_Room_def)
next
  case (reach_register s token now w uname r s')
  then show ?case
    by (auto simp: register_user_def general_empty_def split: sum.splits if_splits)
next
  case (reach_message s u now m s' es)
  then show ?case using ge_handle_message by blast
next
  case (reach_disconnect s u now s' es)
  then show ?case using ge_disconnect_user by blast
qed

lemma join_general_refused:
  assumes "reach s"
  shows "fst (join_room now s u ''General'') = False
       \<and> server_rooms (fst (snd (join_room now s u ''General'')))
           = server_rooms (fst (if str_truthy (get_current_room (heap s) u)
                  \<and> get_current_room (heap s) u \<noteq> Some ''General''
               then leave_current now s u else (s, [])))"
proof -
  obtain s1 e0 where pre: "(if str_truthy (get_current_room (heap s) u)
                  \<and> get_current_room (heap s) u \<noteq> Some ''General''
               then leave_current now s u else (s, [])) = (s1, e0)"
    by (cases "if str_truthy (get_current_room (heap s) u)
                  \<and> get_current_room (heap s) u \<noteq> Some ''General''
               then leave_current now s u else (s, [])")
  have "general_empty s1"
    using pre reach_general_empty[OF assms] ge_leave_current by (auto split: if_splits)
  then show ?thesis unfolding join_room_def pre
    by (auto simp: general_empty_def bool_Room_def len_Room_def split: option.splits)
qed

lemma rejected_without_room_unchanged:
  assumes "get_current_room (heap s) u = None"
  shows "map_of (server_rooms s) R \<noteq> None \<Longrightarrow> create_room_and_join now s R u = (False, s, [])"
    and "map_of (server_rooms s) R = None \<Longrightarrow>
         join_room now s u R = (False, s, [(ToUser u, create_error now
            (''La sala '' @ [CHR 39] @ R @ [CHR 39] @ '' no existe''))])"
  using assms
  by (auto simp: create_room_and_join_def join_room_def send_message_def)

lemma get_username_set_current_room:
  "get_username (set_current_room h u r) v = get_username h v"
  by (auto simp: get_username_def map_of_set_current_room split: option.splits)

lemma leave_room_username:
  "leave_room now s u R = (b, s', es) \<Longrightarrow> get_username (heap s') v = get_username (heap s) v"
  by (auto dest!: leave_room_cases simp: get_username_set_current_room)

lemma leave_current_username:
  "leave_current now s u = (s', es) \<Longrightarrow> get_username (heap s') v = get_username (heap s) v"
  by (auto simp: leave_current_def split: option.splits prod.splits dest: leave_room_username)

section \<open>The claims\<close>

subsection \<open>C1: Rejected operations\<close>

text \<open>
  Claim C1 fails on the code. alice and Bob are in foo. alice asks to create foo, which
  exists: the request is refused with an error, but \<open>create_room_and_join\<close> has already
  run \<open>leave_room\<close>, so alice is in no room any more, foo has lost her, and Bob and every
  connected user were notified. The same happens when alice asks to join bar, which does
  not exist.
\<close>

theorem rejected_operations_leave_room:
  "get_current_room (heap srv4) ''a1'' = Some ''foo''
   \<and> map_of (server_rooms srv4) ''foo'' = Some (foo\<lparr>room_users := [''a1'', ''b2'']\<rparr>)
   \<and> map_sum id (\<lambda>(s', es). (s', map (\<lambda>(t, m). (t, msg_type m)) es))
        (CreateRoomHandler ''t5'' srv4 ''a1'' (msg CREATE_ROOM [(''room_name'', JStr ''foo'')]))
      = Inr (srv5, [(ToUser ''b2'', USER_LEFT), (ToUser ''b2'', ROOM_USERS),
                    (ToUser ''a1'', ROOMS_LIST), (ToUser ''b2'', ROOMS_LIST),
                    (ToUser ''a1'', ERROR)])
   \<and> fst (create_room_and_join ''t5'' srv4 ''foo'' ''a1'') = False
   \<and> map_of (server_rooms srv4) ''bar'' = None
   \<and> (case join_room ''t5'' srv4 ''a1'' ''bar'' of
         (b, s', es) \<Rightarrow> (b, s', map (\<lambda>(t, m). (t, msg_type m)) es))
      = (False, srv5, [(ToUser ''b2'', USER_LEFT), (ToUser ''b2'', ROOM_USERS),
                       (ToUser ''a1'', ROOMS_LIST), (ToUser ''b2'', ROOMS_LIST),
                       (ToUser ''a1'', ERROR)])
   \<and> get_current_room (heap srv5) ''a1'' = None
   \<and> map_of (server_rooms srv5) ''foo'' = Some (foo\<lparr>room_users := [''b2'']\<rparr>)"
  by code_simp

subsection \<open>C2: Membership\<close>

text \<open>
  Claim C2. In every reachable server, a user object's \<open>current_room\<close> is \<open>R\<close> exactly
  when the room registered under \<open>R\<close> has the user in its set, no user is in the sets of
  two rooms, and every connected user is such an object. The steps of \<open>reach\<close> go through
  the handlers, which refuse an empty room name before they call the server.
\<close>

theorem membership_symmetry_single_room:
  assumes "reach s"
  shows "(\<forall>u x R. map_of (heap s) u = Some x \<longrightarrow> (current_room x = Some R) = in_room s R u)
       \<and> (\<forall>u R1 R2. in_room s R1 u \<and> in_room s R2 u \<longrightarrow> R1 = R2)
       \<and> (\<forall>u \<in> set (server_users s). map_of (heap s) u \<noteq> None)"
proof -
  have i: "inv s" using assms by (rule reach_inv)
  have 1: "\<forall>u x R. map_of (heap s) u = Some x \<longrightarrow> (current_room x = Some R) = in_room s R u"
    using inv_sym[OF i] by blast
  have 2: "\<forall>u R1 R2. in_room s R1 u \<and> in_room s R2 u \<longrightarrow> R1 = R2"
    using inv_single_room[OF i] by blast
  have 3: "\<forall>u \<in> set (server_users s). map_of (heap s) u \<noteq> None"
    using i unfolding inv_def by blast
  show ?thesis using 1 2 3 by blast
qed

text \<open>
  The theorem at the server where alice and Bob are in foo.
\<close>

theorem membership_symmetry_single_room_witness:
  "reach srv4
   \<and> map_of (heap srv4) ''b2'' = Some (bob\<lparr>current_room := Some ''foo''\<rparr>)
   \<and> in_room srv4 ''foo'' ''b2''
   \<and> \<not> in_room srv4 ''General'' ''b2''
   \<and> map_of (heap srv4) ''a1'' \<noteq> None"
proof -
  note t = membership_symmetry_single_room[OF reach_srv4]
  have h: "map_of (heap srv4) ''b2'' = Some (bob\<lparr>current_room := Some ''foo''\<rparr>)"
    by (simp add: srv4_def)
  from t h have "(current_room (bob\<lparr>current_room := Some ''foo''\<rparr>) = Some ''foo'') = in_room srv4 ''foo'' ''b2''"
    by blast
  then have a: "in_room srv4 ''foo'' ''b2''" by simp
  from t a have b: "\<not> in_room srv4 ''General'' ''b2''" by blast
  have "''a1'' \<in> set (server_users srv4)" by (simp add: srv4_def)
  with t have c: "map_of (heap srv4) ''a1'' \<noteq> None" by blast
  show ?thesis using reach_srv4 h a b c by blast
qed

subsection \<open>C3: Chat echo\<close>

text \<open>
  Claim C3. A user of room \<open>R\<close> sends a chat message whose stripped content \<open>c\<close> is not
  empty, for \<open>R\<close> by name or by default (its current room). The handler and
  \<open>broadcast_message\<close> leave the server with the one record \<open>(username, c, now)\<close> appended to
  the history of \<open>R\<close> (the last records within \<open>max_history\<close> are kept, the new one last),
  and send the same \<open>chat_message\<close> with that username, room name and content to every
  user of the room, the sender among them.
\<close>

theorem chat_echo:
  assumes "map_of (heap s) u = Some x"
    and "map_of (server_rooms s) R = Some r" "u \<in> set (room_users r)" "0 < max_history r"
    and "dict_get (payload m) ''content'' (JStr []) = Inr (JStr raw)" "strip raw = c" "c \<noteq> []"
    and "dict_get (payload m) ''room_name'' JNull = Inr v"
        "v = JStr R \<and> R \<noteq> [] \<or> \<not> truthy v \<and> current_room x = Some R \<and> R \<noteq> []"
  shows "\<exists>r' es.
       ChatMessageHandler now s u m
         = Inr (s\<lparr>server_rooms := AList.update R r' (server_rooms s)\<rparr>, es)
     \<and> broadcast_message now s u R c
         = (True, s\<lparr>server_rooms := AList.update R r' (server_rooms s)\<rparr>, es)
     \<and> r' = r\<lparr>message_history :=
                 drop (Suc (length (message_history r)) - nat (max_history r))
                   (message_history r @ [HistoryEntry (username x) c now])\<rparr>
     \<and> last (message_history r') = HistoryEntry (username x) c now
     \<and> es = map (\<lambda>v. (ToUser v,
                 \<lparr>msg_type = CHAT_MESSAGE,
                  payload = JObj [(''username'', JStr (username x)), (''room_name'', JStr R),
                                  (''content'', JStr c)],
                  timestamp = JStr now\<rparr>)) (room_users r)
     \<and> (ToUser u,
           \<lparr>msg_type = CHAT_MESSAGE,
            payload = JObj [(''username'', JStr (username x)), (''room_name'', JStr R),
                            (''content'', JStr c)],
            timestamp = JStr now\<rparr>) \<in> set es"
proof -
  define r' where "r' = add_message_to_history now r (username x) c"
  define es where "es = map (\<lambda>v. (ToUser v, create_chat_message now (username x) R c)) (room_users r)"
  have un: "get_username (heap s) u = username x" using assms(1) by (simp add: get_username_def)
  have bm: "broadcast_message now s u R c
         = (True, s\<lparr>server_rooms := AList.update R r' (server_rooms s)\<rparr>, es)"
    using broadcast_message_member[OF assms(2,3), of now c] by (simp add: r'_def es_def un)
  have rn: "(if truthy v then v
             else (case get_current_room (heap s) u of None \<Rightarrow> JNull | Some r \<Rightarrow> JStr r)) = JStr R"
    using assms(9) assms(1) by (auto simp: get_current_room_def)
  have h: "ChatMessageHandler now s u m
         = Inr (s\<lparr>server_rooms := AList.update R r' (server_rooms s)\<rparr>, es)"
  proof -
    have "R \<noteq> []" using assms(9) by auto
    then show ?thesis using assms(5-8) bm rn
      by (simp add: ChatMessageHandler_def broadcast_message_key_def Let_def)
  qed
  have mh: "message_history r' = drop (Suc (length (message_history r)) - nat (max_history r))
                   (message_history r @ [HistoryEntry (username x) c now])"
    unfolding r'_def by (rule add_message_to_history_fifo[OF assms(4)])
  have r'eq: "r' = r\<lparr>message_history :=
                 drop (Suc (length (message_history r)) - nat (max_history r))
                   (message_history r @ [HistoryEntry (username x) c now])\<rparr>"
    using mh by (simp add: r'_def add_message_to_history_def Let_def split: if_splits)
  have "Suc (length (message_history r)) - nat (max_history r) < length (message_history r @ [HistoryEntry (username x) c now])"
    using assms(4) by auto
  then have lst: "last (message_history r') = HistoryEntry (username x) c now"
    unfolding mh by (simp add: last_drop)
  have es': "es = map (\<lambda>v. (ToUser v,
                 \<lparr>msg_type = CHAT_MESSAGE,
                  payload = JObj [(''username'', JStr (username x)), (''room_name'', JStr R),
                                  (''content'', JStr c)],
                  timestamp = JStr now\<rparr>)) (room_users r)"
    by (simp add: es_def create_chat_message_def mk_Message_def)
  have mem: "(ToUser u,
           \<lparr>msg_type = CHAT_MESSAGE,
            payload = JObj [(''username'', JStr (username x)), (''room_name'', JStr R),
                            (''content'', JStr c)],
            timestamp = JStr now\<rparr>) \<in> set es"
    unfolding es' using assms(3) by auto
  show ?thesis using h bm r'eq lst es' mem by blast
qed

text \<open>
  The theorem at the server of the run: alice says hi in foo, her current room, and both
  alice and Bob get the message.
\<close>

theorem chat_echo_witness:
  "map_of (heap srv4) ''a1'' = Some (alice\<lparr>current_room := Some ''foo''\<rparr>)
   \<and> map_of (server_rooms srv4) ''foo'' = Some (foo\<lparr>room_users := [''a1'', ''b2'']\<rparr>)
   \<and> strip '' hi '' = ''hi''
   \<and> ChatMessageHandler ''t5'' srv4 ''a1'' (msg CHAT_MESSAGE [(''content'', JStr '' hi '')])
       = Inr (srv4\<lparr>server_rooms := AList.update ''foo''
                 (foo\<lparr>room_users := [''a1'', ''b2''],
                      message_history := [HistoryEntry ''alice'' ''hi'' ''t5'']\<rparr>)
                 (server_rooms srv4)\<rparr>,
              [(ToUser ''a1'',
                \<lparr>msg_type = CHAT_MESSAGE,
                 payload = JObj [(''username'', JStr ''alice''), (''room_name'', JStr ''foo''),
                                 (''content'', JStr ''hi'')],
                 timestamp = JStr ''t5''\<rparr>),
               (ToUser ''b2'',
                \<lparr>msg_type = CHAT_MESSAGE,
                 payload = JObj [(''username'', JStr ''alice''), (''room_name'', JStr ''foo''),
                                 (''content'', JStr ''hi'')],
                 timestamp = JStr ''t5''\<rparr>)])"
proof -
  let ?m = "msg CHAT_MESSAGE [(''content'', JStr '' hi '')]"
  have h1: "map_of (heap srv4) ''a1'' = Some (alice\<lparr>current_room := Some ''foo''\<rparr>)"
    by (simp add: srv4_def)
  have h2: "map_of (server_rooms srv4) ''foo'' = Some (foo\<lparr>room_users := [''a1'', ''b2'']\<rparr>)"
    by (simp add: srv4_def)
  have h3: "''a1'' \<in> set (room_users (foo\<lparr>room_users := [''a1'', ''b2'']\<rparr>))" by simp
  have h4: "0 < max_history (foo\<lparr>room_users := [''a1'', ''b2'']\<rparr>)"
    by (simp add: foo_def new_Room_def)
  have h5: "dict_get (payload ?m) ''content'' (JStr []) = Inr (JStr '' hi '')"
    by (simp add: msg_def)
  have h6: "strip '' hi '' = ''hi''" by code_simp
  have h7: "''hi'' \<noteq> []" by simp
  have h8: "dict_get (payload ?m) ''room_name'' JNull = Inr JNull" by (simp add: msg_def)
  have h9: "JNull = JStr ''foo'' \<and> ''foo'' \<noteq> [] \<or>
            \<not> truthy JNull \<and> current_room (alice\<lparr>current_room := Some ''foo''\<rparr>) = Some ''foo''
              \<and> ''foo'' \<noteq> []" by simp
  from chat_echo[OF h1 h2 h3 h4 h5 h6 h7 h8 h9, of "''t5''"]
  have "ChatMessageHandler ''t5'' srv4 ''a1'' ?m
       = Inr (srv4\<lparr>server_rooms := AList.update ''foo''
                 (foo\<lparr>room_users := [''a1'', ''b2''],
                      message_history := [HistoryEntry ''alice'' ''hi'' ''t5'']\<rparr>)
                 (server_rooms srv4)\<rparr>,
              [(ToUser ''a1'',
                \<lparr>msg_type = CHAT_MESSAGE,
                 payload = JObj [(''username'', JStr ''alice''), (''room_name'', JStr ''foo''),
                                 (''content'', JStr ''hi'')],
                 timestamp = JStr ''t5''\<rparr>),
               (ToUser ''b2'',
                \<lparr>msg_type = CHAT_MESSAGE,
                 payload = JObj [(''username'', JStr ''alice''), (''room_name'', JStr ''foo''),
                                 (''content'', JStr ''hi'')],
                 timestamp = JStr ''t5''\<rparr>)])"
    by (auto simp: foo_def new_Room_def alice_def)
  then show ?thesis using h1 h2 h6 by blast
qed

subsection \<open>C4: Registration\<close>

text \<open>
  Claim C4. The handshake of a connection that has no user yet, on a \<open>connect\<close> message
  whose username is the string \<open>raw\<close>. The name is stripped; when it is empty, longer than
  30, or equal in lower case to the name of a connected user, the server is unchanged, the
  connection stays without user and one message of type \<open>connection_error\<close> is written to
  the websocket. Otherwise the new user object is stored under the token with
  \<open>current_room = None\<close>, its id is appended to the connected users, no room changes, and
  the websocket is written first the \<open>connection_ack\<close> that carries the stripped name and
  the token, then the \<open>rooms_list\<close> with one entry per registered room, in order: its name,
  creator, creation time, number of users and their names.
\<close>

theorem registration_contract:
  assumes "msg_type m = CONNECT"
    and "dict_get (payload m) ''username'' (JStr []) = Inr (JStr raw)"
  shows "handle_frame now token s w None m =
     (let n = strip raw;
          s' = s\<lparr>heap := AList.update token
                     \<lparr>username = n, websocket = w, user_id = token, connected_at = now,
                      current_room = None\<rparr> (heap s),
                  server_users := (if token \<in> set (server_users s) then server_users s
                                   else server_users s @ [token]),
                  websocket_to_user := AList.update w token (websocket_to_user s)\<rparr>
      in if n = [] \<or> length n > 30
            \<or> list_ex (\<lambda>e. lower (case map_of (heap s) e of
                                       None \<Rightarrow> [] | Some y \<Rightarrow> username y) = lower n)
                 (server_users s)
         then (s, None,
               [(ToSocket w,
                 \<lparr>msg_type = CONNECTION_ERROR,
                  payload = JObj [(''reason'',
                    JStr (''Nombre de usuario inv'' @ [char_of (225::nat)] @ ''lido o ya en uso''))],
                  timestamp = JStr now\<rparr>)])
         else (s', Some token,
               [(ToSocket w,
                 \<lparr>msg_type = CONNECTION_ACK,
                  payload = JObj [(''username'', JStr n), (''user_id'', JStr token)],
                  timestamp = JStr now\<rparr>),
                (ToSocket w,
                 \<lparr>msg_type = ROOMS_LIST,
                  payload = JObj [(''rooms'', JArr
                    (map (\<lambda>p. JObj [
                       (''name'', JStr (name (snd p))),
                       (''created_by'', JStr (created_by (snd p))),
                       (''created_at'', JStr (created_at (snd p))),
                       (''user_count'', JInt (int (length (room_users (snd p))))),
                       (''users'', JArr (map (\<lambda>v. JStr (case map_of (heap s') v of
                                                 None \<Rightarrow> [] | Some y \<Rightarrow> username y))
                                          (room_users (snd p))))])
                     (server_rooms s)))],
                  timestamp = JStr now\<rparr>)]))
     \<and> (let s' = fst (handle_frame now token s w None m)
        in server_rooms s' = server_rooms s
           \<and> (s' = s \<or> token \<in> set (server_users s')
                \<and> map_of (heap s') token =
                     Some \<lparr>username = strip raw, websocket = w, user_id = token,
                           connected_at = now, current_room = None\<rparr>))"
  using assms
  by (auto simp: handle_frame_def register_user_def Let_def update_conv' get_username_def
      get_rooms_info_def Room_to_dict_def usernames_def create_connection_ack_def
      create_connection_error_def create_rooms_list_def mk_Message_def)

text \<open>
  The theorem at the handshake of Bob (accepted, stripped), and at one that asks for
  ALICE while alice is connected (refused).
\<close>

theorem registration_contract_witness:
  "handle_frame ''t3'' ''b2'' srv2 2 None (msg CONNECT [(''username'', JStr '' Bob '')])
     = (srv3, Some ''b2'',
        [(ToSocket 2,
          \<lparr>msg_type = CONNECTION_ACK,
           payload = JObj [(''username'', JStr ''Bob''), (''user_id'', JStr ''b2'')],
           timestamp = JStr ''t3''\<rparr>),
         (ToSocket 2,
          \<lparr>msg_type = ROOMS_LIST,
           payload = JObj [(''rooms'', JArr [
             JObj [(''name'', JStr ''General''), (''created_by'', JStr ''Sistema''),
                   (''created_at'', JStr ''t0''), (''user_count'', JInt 0),
                   (''users'', JArr [])],
             JObj [(''name'', JStr ''foo''), (''created_by'', JStr ''alice''),
                   (''created_at'', JStr ''t2''), (''user_count'', JInt 1),
                   (''users'', JArr [JStr ''alice''])]])],
           timestamp = JStr ''t3''\<rparr>)])
   \<and> map_of (heap srv3) ''b2'' = Some bob \<and> current_room bob = None
   \<and> handle_frame ''t3'' ''c3'' srv2 3 None (msg CONNECT [(''username'', JStr ''ALICE'')])
     = (srv2, None,
        [(ToSocket 3,
          \<lparr>msg_type = CONNECTION_ERROR,
           payload = JObj [(''reason'',
             JStr (''Nombre de usuario inv'' @ [char_of (225::nat)] @ ''lido o ya en uso''))],
           timestamp = JStr ''t3''\<rparr>)])"
proof -
  have m: "msg_type (msg CONNECT kv) = CONNECT" for kv by (simp add: msg_def)
  have p1: "dict_get (payload (msg CONNECT [(''username'', JStr '' Bob '')])) ''username'' (JStr [])
            = Inr (JStr '' Bob '')" by (simp add: msg_def)
  have p2: "dict_get (payload (msg CONNECT [(''username'', JStr ''ALICE'')])) ''username'' (JStr [])
            = Inr (JStr ''ALICE'')" by (simp add: msg_def)
  have s1: "strip '' Bob '' = ''Bob''" by code_simp
  have s2: "strip ''ALICE'' = ''ALICE''" by code_simp
  have l1: "\<not> list_ex (\<lambda>e. lower (case map_of (heap srv2) e of
                                       None \<Rightarrow> [] | Some y \<Rightarrow> username y) = lower ''Bob'')
                 (server_users srv2)"
    by code_simp
  have l2: "list_ex (\<lambda>e. lower (case map_of (heap srv2) e of
                                       None \<Rightarrow> [] | Some y \<Rightarrow> username y) = lower ''ALICE'')
                 (server_users srv2)"
    by code_simp
  have e: "srv2\<lparr>heap := AList.update ''b2''
                     \<lparr>username = ''Bob'', websocket = 2, user_id = ''b2'', connected_at = ''t3'',
                      current_room = None\<rparr> (heap srv2),
                  server_users := (if ''b2'' \<in> set (server_users srv2) then server_users srv2
                                   else server_users srv2 @ [''b2'']),
                  websocket_to_user := AList.update 2 ''b2'' (websocket_to_user srv2)\<rparr> = srv3"
    by (simp add: srv2_def srv3_def bob_def)
  from registration_contract[OF m p1, of "''t3''" "''b2''" srv2 2]
  have a: "handle_frame ''t3'' ''b2'' srv2 2 None (msg CONNECT [(''username'', JStr '' Bob '')])
     = (srv3, Some ''b2'',
        [(ToSocket 2,
          \<lparr>msg_type = CONNECTION_ACK,
           payload = JObj [(''username'', JStr ''Bob''), (''user_id'', JStr ''b2'')],
           timestamp = JStr ''t3''\<rparr>),
         (ToSocket 2,
          \<lparr>msg_type = ROOMS_LIST,
           payload = JObj [(''rooms'', JArr [
             JObj [(''name'', JStr ''General''), (''created_by'', JStr ''Sistema''),
                   (''created_at'', JStr ''t0''), (''user_count'', JInt 0),
                   (''users'', JArr [])],
             JObj [(''name'', JStr ''foo''), (''created_by'', JStr ''alice''),
                   (''created_at'', JStr ''t2''), (''user_count'', JInt 1),
                   (''users'', JArr [JStr ''alice''])]])],
           timestamp = JStr ''t3''\<rparr>)])"
    unfolding s1 Let_def e using l1
    by (simp add: srv2_def srv3_def general_def foo_def new_Room_def alice_def bob_def)
  from registration_contract[OF m p2, of "''t3''" "''c3''" srv2 3]
  have b: "handle_frame ''t3'' ''c3'' srv2 3 None (msg CONNECT [(''username'', JStr ''ALICE'')])
     = (srv2, None,
        [(ToSocket 3,
          \<lparr>msg_type = CONNECTION_ERROR,
           payload = JObj [(''reason'',
             JStr (''Nombre de usuario inv'' @ [char_of (225::nat)] @ ''lido o ya en uso''))],
           timestamp = JStr ''t3''\<rparr>)])"
    unfolding s2 Let_def using l2 by simp
  have c: "map_of (heap srv3) ''b2'' = Some bob \<and> current_room bob = None"
    by (simp add: srv3_def bob_def)
  show ?thesis using a b c by blast
qed

subsection \<open>C5: Chatting outside a room\<close>




subsection \<open>C6: The sends of a join\<close>

text \<open>
  Claim C6. The user \<open>u\<close>, whose name is \<open>username x\<close>, joins the room \<open>R\<close> with success.
  The sends are those of leaving the previous room, if the user was in another one, and
  then, in this order: the \<open>user_joined\<close> that carries the name of \<open>u\<close> and \<open>R\<close>, to every
  user of the room but \<open>u\<close>; the \<open>room_users\<close> that carries \<open>R\<close> and the names of the users
  the room now has, to every one of them, \<open>u\<close> included; the \<open>system_message\<close> of welcome
  to \<open>u\<close>; and the \<open>rooms_list\<close> of the server after the join to every connected user.
  The users of the room are those it had, followed by \<open>u\<close>. No \<open>user_joined\<close> at all goes
  to \<open>u\<close>.
\<close>

theorem join_effects:
  assumes "join_room now s u R = (True, s', es)" and "map_of (heap s) u = Some x"
  shows "\<exists>r r' pre.
       map_of (server_rooms s') R = Some r' \<and> u \<in> set (room_users r')
     \<and> map_of (server_rooms
           (fst (if str_truthy (get_current_room (heap s) u)
                    \<and> get_current_room (heap s) u \<noteq> Some R
                 then leave_current now s u else (s, [])))) R = Some r
     \<and> room_users r' = room_users r @ [u] \<and> u \<notin> set (room_users r)
     \<and> pre = snd (if str_truthy (get_current_room (heap s) u)
                      \<and> get_current_room (heap s) u \<noteq> Some R
                   then leave_current now s u else (s, []))
     \<and> es = pre
          @ map (\<lambda>v. (ToUser v,
                  \<lparr>msg_type = USER_JOINED,
                   payload = JObj [(''username'', JStr (username x)), (''room_name'', JStr R)],
                   timestamp = JStr now\<rparr>))
              (filter (\<lambda>v. v \<noteq> u) (room_users r'))
          @ map (\<lambda>v. (ToUser v,
                  \<lparr>msg_type = ROOM_USERS,
                   payload = JObj [(''room_name'', JStr R),
                     (''users'', JArr (map (\<lambda>v. JStr (case map_of (heap s') v of
                                               None \<Rightarrow> [] | Some y \<Rightarrow> username y))
                                        (room_users r')))],
                   timestamp = JStr now\<rparr>))
              (room_users r')
          @ [(ToUser u,
              \<lparr>msg_type = SYSTEM_MESSAGE,
               payload = JObj [(''content'',
                           JStr (''Te has unido a la sala '' @ [CHR 39] @ R @ [CHR 39])),
                         (''room_name'', JStr R)],
               timestamp = JStr now\<rparr>)]
          @ map (\<lambda>v. (ToUser v,
                  \<lparr>msg_type = ROOMS_LIST,
                   payload = JObj [(''rooms'', JArr
                     (map (\<lambda>p. JObj [
                        (''name'', JStr (name (snd p))),
                        (''created_by'', JStr (created_by (snd p))),
                        (''created_at'', JStr (created_at (snd p))),
                        (''user_count'', JInt (int (length (room_users (snd p))))),
                        (''users'', JArr (map (\<lambda>v. JStr (case map_of (heap s') v of
                                                  None \<Rightarrow> [] | Some y \<Rightarrow> username y))
                                           (room_users (snd p))))])
                      (server_rooms s')))],
                   timestamp = JStr now\<rparr>))
              (server_users s')
     \<and> (\<forall>m. (ToUser u, m) \<in> set es \<longrightarrow> msg_type m \<noteq> USER_JOINED)"
proof -
  obtain s1 e0 where pre: "(if str_truthy (get_current_room (heap s) u)
                  \<and> get_current_room (heap s) u \<noteq> Some R
               then leave_current now s u else (s, [])) = (s1, e0)"
    by (cases "if str_truthy (get_current_room (heap s) u)
                  \<and> get_current_room (heap s) u \<noteq> Some R
               then leave_current now s u else (s, [])")
  from join_room_success[OF assms(1) pre] obtain r where
    r: "map_of (server_rooms s1) R = Some r" "u \<notin> set (room_users r)"
    and s': "s' = s1\<lparr>heap := set_current_room (heap s1) u (Some (name r)),
                  server_rooms := AList.update R (r\<lparr>room_users := room_users r @ [u]\<rparr>)
                                    (server_rooms s1)\<rparr>"
    and es: "es = e0
           @ broadcast (r\<lparr>room_users := room_users r @ [u]\<rparr>)
               (create_user_joined now (get_username (heap s') u) R) (Some u)
           @ broadcast (r\<lparr>room_users := room_users r @ [u]\<rparr>)
               (create_room_users now R (usernames (heap s') (r\<lparr>room_users := room_users r @ [u]\<rparr>))) None
           @ send_message u
               (create_system_message now
                  (''Te has unido a la sala '' @ [CHR 39] @ R @ [CHR 39]) (Some R))
           @ broadcast_to_all s' (create_rooms_list now (get_rooms_info s'))"
    by blast
  define r' where "r' = r\<lparr>room_users := room_users r @ [u]\<rparr>"
  have un1: "get_username (heap s1) u = username x"
  proof (cases "str_truthy (get_current_room (heap s) u) \<and> get_current_room (heap s) u \<noteq> Some R")
    case True
    then have "leave_current now s u = (s1, e0)" using pre by simp
    from leave_current_username[OF this, of u] show ?thesis
      using assms(2) by (simp add: get_username_def)
  next
    case False
    then show ?thesis using pre assms(2) by (auto simp: get_username_def)
  qed
  have un: "get_username (heap s') u = username x"
    unfolding s' using un1 by (simp add: get_username_set_current_room)
  have 1: "map_of (server_rooms s') R = Some r'" unfolding s' r'_def by (simp add: update_conv')
  have 2: "u \<in> set (room_users r')" by (simp add: r'_def)
  have m1: "map_of (server_rooms
           (fst (if str_truthy (get_current_room (heap s) u)
                    \<and> get_current_room (heap s) u \<noteq> Some R
                 then leave_current now s u else (s, [])))) R = Some r"
    unfolding pre using r(1) by simp
  have m2: "room_users r' = room_users r @ [u]" by (simp add: r'_def)
  have 3: "es = e0
          @ map (\<lambda>v. (ToUser v,
                  \<lparr>msg_type = USER_JOINED,
                   payload = JObj [(''username'', JStr (username x)), (''room_name'', JStr R)],
                   timestamp = JStr now\<rparr>))
              (filter (\<lambda>v. v \<noteq> u) (room_users r'))
          @ map (\<lambda>v. (ToUser v,
                  \<lparr>msg_type = ROOM_USERS,
                   payload = JObj [(''room_name'', JStr R),
                     (''users'', JArr (map (\<lambda>v. JStr (case map_of (heap s') v of
                                               None \<Rightarrow> [] | Some y \<Rightarrow> username y))
                                        (room_users r')))],
                   timestamp = JStr now\<rparr>))
              (room_users r')
          @ [(ToUser u,
              \<lparr>msg_type = SYSTEM_MESSAGE,
               payload = JObj [(''content'',
                           JStr (''Te has unido a la sala '' @ [CHR 39] @ R @ [CHR 39])),
                         (''room_name'', JStr R)],
               timestamp = JStr now\<rparr>)]
          @ map (\<lambda>v. (ToUser v,
                  \<lparr>msg_type = ROOMS_LIST,
                   payload = JObj [(''rooms'', JArr
                     (map (\<lambda>p. JObj [
                        (''name'', JStr (name (snd p))),
                        (''created_by'', JStr (created_by (snd p))),
                        (''created_at'', JStr (created_at (snd p))),
                        (''user_count'', JInt (int (length (room_users (snd p))))),
                        (''users'', JArr (map (\<lambda>v. JStr (case map_of (heap s') v of
                                                  None \<Rightarrow> [] | Some y \<Rightarrow> username y))
                                           (room_users (snd p))))])
                      (server_rooms s')))],
                   timestamp = JStr now\<rparr>))
              (server_users s')"
    unfolding es r'_def[symmetric] un
    by (simp add: broadcast_eq broadcast_to_all_eq send_message_def create_user_joined_def
        create_room_users_def create_system_message_def create_rooms_list_def mk_Message_def
        usernames_def get_username_def get_rooms_info_def Room_to_dict_def)
  have e0_types: "msg_type m \<noteq> USER_JOINED" if "(t, m) \<in> set e0" for t m
  proof (cases "str_truthy (get_current_room (heap s) u) \<and> get_current_room (heap s) u \<noteq> Some R")
    case True
    then have "leave_current now s u = (s1, e0)" using pre by simp
    from leave_current_effect_types[OF this that] show ?thesis by auto
  next
    case False
    then show ?thesis using pre that by auto
  qed
  have 4: "\<forall>m. (ToUser u, m) \<in> set es \<longrightarrow> msg_type m \<noteq> USER_JOINED"
    unfolding 3 using e0_types by auto
  have 5: "e0 = snd (if str_truthy (get_current_room (heap s) u)
                      \<and> get_current_room (heap s) u \<noteq> Some R
                   then leave_current now s u else (s, []))"
    using pre by simp
  show ?thesis
    by (rule exI[of _ r], rule exI[of _ r'], rule exI[of _ e0])
       (intro conjI 1 2 m1 m2 r(2) 5 3 4)
qed

text \<open>
  The theorem at the join of Bob into foo, where alice is.
\<close>

theorem join_effects_witness:
  "join_room ''t4'' srv3 ''b2'' ''foo'' =
     (True, srv4,
      [(ToUser ''a1'',
        \<lparr>msg_type = USER_JOINED,
         payload = JObj [(''username'', JStr ''Bob''), (''room_name'', JStr ''foo'')],
         timestamp = JStr ''t4''\<rparr>),
       (ToUser ''a1'',
        \<lparr>msg_type = ROOM_USERS,
         payload = JObj [(''room_name'', JStr ''foo''),
                         (''users'', JArr [JStr ''alice'', JStr ''Bob''])],
         timestamp = JStr ''t4''\<rparr>),
       (ToUser ''b2'',
        \<lparr>msg_type = ROOM_USERS,
         payload = JObj [(''room_name'', JStr ''foo''),
                         (''users'', JArr [JStr ''alice'', JStr ''Bob''])],
         timestamp = JStr ''t4''\<rparr>),
       (ToUser ''b2'',
        \<lparr>msg_type = SYSTEM_MESSAGE,
         payload = JObj [(''content'', JStr (''Te has unido a la sala '' @ [CHR 39] @ ''foo'' @ [CHR 39])),
                         (''room_name'', JStr ''foo'')],
         timestamp = JStr ''t4''\<rparr>),
       (ToUser ''a1'',
        \<lparr>msg_type = ROOMS_LIST,
         payload = JObj [(''rooms'', JArr [
           JObj [(''name'', JStr ''General''), (''created_by'', JStr ''Sistema''),
                 (''created_at'', JStr ''t0''), (''user_count'', JInt 0), (''users'', JArr [])],
           JObj [(''name'', JStr ''foo''), (''created_by'', JStr ''alice''),
                 (''created_at'', JStr ''t2''), (''user_count'', JInt 2),
                 (''users'', JArr [JStr ''alice'', JStr ''Bob''])]])],
         timestamp = JStr ''t4''\<rparr>),
       (ToUser ''b2'',
        \<lparr>msg_type = ROOMS_LIST,
         payload = JObj [(''rooms'', JArr [
           JObj [(''name'', JStr ''General''), (''created_by'', JStr ''Sistema''),
                 (''created_at'', JStr ''t0''), (''user_count'', JInt 0), (''users'', JArr [])],
           JObj [(''name'', JStr ''foo''), (''created_by'', JStr ''alice''),
                 (''created_at'', JStr ''t2''), (''user_count'', JInt 2),
                 (''users'', JArr [JStr ''alice'', JStr ''Bob''])]])],
         timestamp = JStr ''t4''\<rparr>)])
   \<and> map_of (heap srv3) ''b2'' = Some bob \<and> username bob = ''Bob''
   \<and> map_of (server_rooms srv4) ''foo'' = Some (foo\<lparr>room_users := [''a1'', ''b2'']\<rparr>)
   \<and> (ToUser ''b2'',
        \<lparr>msg_type = USER_JOINED,
         payload = JObj [(''username'', JStr ''Bob''), (''room_name'', JStr ''foo'')],
         timestamp = JStr ''t4''\<rparr>)
        \<notin> set (snd (snd (join_room ''t4'' srv3 ''b2'' ''foo'')))"
proof -
  define E where "E = snd (snd (join_room ''t4'' srv3 ''b2'' ''foo''))"
  have j0: "join_room ''t4'' srv3 ''b2'' ''foo'' = (True, srv4, E)"
    unfolding E_def by code_simp
  have h: "map_of (heap srv3) ''b2'' = Some bob" by (simp add: srv3_def)
  have n: "username bob = ''Bob''" by (simp add: bob_def)
  have p: "\<not> (str_truthy (get_current_room (heap srv3) ''b2'')
                \<and> get_current_room (heap srv3) ''b2'' \<noteq> Some ''foo'')"
    by (simp add: srv3_def get_current_room_def bob_def)
  have r: "map_of (server_rooms srv4) ''foo'' = Some (foo\<lparr>room_users := [''a1'', ''b2'']\<rparr>)"
    by (simp add: srv4_def)
  from join_effects[OF j0 h] obtain r0 r' pre where
    a: "map_of (server_rooms srv4) ''foo'' = Some r'"
    and b: "pre = snd (if str_truthy (get_current_room (heap srv3) ''b2'')
                      \<and> get_current_room (heap srv3) ''b2'' \<noteq> Some ''foo''
                   then leave_current ''t4'' srv3 ''b2'' else (srv3, []))"
    and c: "E = pre
          @ map (\<lambda>v. (ToUser v,
                  \<lparr>msg_type = USER_JOINED,
                   payload = JObj [(''username'', JStr (username bob)), (''room_name'', JStr ''foo'')],
                   timestamp = JStr ''t4''\<rparr>))
              (filter (\<lambda>v. v \<noteq> ''b2'') (room_users r'))
          @ map (\<lambda>v. (ToUser v,
                  \<lparr>msg_type = ROOM_USERS,
                   payload = JObj [(''room_name'', JStr ''foo''),
                     (''users'', JArr (map (\<lambda>v. JStr (case map_of (heap srv4) v of
                                               None \<Rightarrow> [] | Some y \<Rightarrow> username y))
                                        (room_users r')))],
                   timestamp = JStr ''t4''\<rparr>))
              (room_users r')
          @ [(ToUser ''b2'',
              \<lparr>msg_type = SYSTEM_MESSAGE,
               payload = JObj [(''content'',
                           JStr (''Te has unido a la sala '' @ [CHR 39] @ ''foo'' @ [CHR 39])),
                         (''room_name'', JStr ''foo'')],
               timestamp = JStr ''t4''\<rparr>)]
          @ map (\<lambda>v. (ToUser v,
                  \<lparr>msg_type = ROOMS_LIST,
                   payload = JObj [(''rooms'', JArr
                     (map (\<lambda>p. JObj [
                        (''name'', JStr (name (snd p))),
                        (''created_by'', JStr (created_by (snd p))),
                        (''created_at'', JStr (created_at (snd p))),
                        (''user_count'', JInt (int (length (room_users (snd p))))),
                        (''users'', JArr (map (\<lambda>v. JStr (case map_of (heap srv4) v of
                                                  None \<Rightarrow> [] | Some y \<Rightarrow> username y))
                                           (room_users (snd p))))])
                      (server_rooms srv4)))],
                   timestamp = JStr ''t4''\<rparr>))
              (server_users srv4)"
    and d: "\<forall>m. (ToUser ''b2'', m) \<in> set E \<longrightarrow> msg_type m \<noteq> USER_JOINED"
    by blast
  have r'eq: "r' = foo\<lparr>room_users := [''a1'', ''b2'']\<rparr>" using a r by simp
  have pre0: "pre = []" using b p by simp
  have Eeq: "E =
      [(ToUser ''a1'',
        \<lparr>msg_type = USER_JOINED,
         payload = JObj [(''username'', JStr ''Bob''), (''room_name'', JStr ''foo'')],
         timestamp = JStr ''t4''\<rparr>),
       (ToUser ''a1'',
        \<lparr>msg_type = ROOM_USERS,
         payload = JObj [(''room_name'', JStr ''foo''),
                         (''users'', JArr [JStr ''alice'', JStr ''Bob''])],
         timestamp = JStr ''t4''\<rparr>),
       (ToUser ''b2'',
        \<lparr>msg_type = ROOM_USERS,
         payload = JObj [(''room_name'', JStr ''foo''),
                         (''users'', JArr [JStr ''alice'', JStr ''Bob''])],
         timestamp = JStr ''t4''\<rparr>),
       (ToUser ''b2'',
        \<lparr>msg_type = SYSTEM_MESSAGE,
         payload = JObj [(''content'', JStr (''Te has unido a la sala '' @ [CHR 39] @ ''foo'' @ [CHR 39])),
                         (''room_name'', JStr ''foo'')],
         timestamp = JStr ''t4''\<rparr>),
       (ToUser ''a1'',
        \<lparr>msg_type = ROOMS_LIST,
         payload = JObj [(''rooms'', JArr [
           JObj [(''name'', JStr ''General''), (''created_by'', JStr ''Sistema''),
                 (''created_at'', JStr ''t0''), (''user_count'', JInt 0), (''users'', JArr [])],
           JObj [(''name'', JStr ''foo''), (''created_by'', JStr ''alice''),
                 (''created_at'', JStr ''t2''), (''user_count'', JInt 2),
                 (''users'', JArr [JStr ''alice'', JStr ''Bob''])]])],
         timestamp = JStr ''t4''\<rparr>),
       (ToUser ''b2'',
        \<lparr>msg_type = ROOMS_LIST,
         payload = JObj [(''rooms'', JArr [
           JObj [(''name'', JStr ''General''), (''created_by'', JStr ''Sistema''),
                 (''created_at'', JStr ''t0''), (''user_count'', JInt 0), (''users'', JArr [])],
           JObj [(''name'', JStr ''foo''), (''created_by'', JStr ''alice''),
                 (''created_at'', JStr ''t2''), (''user_count'', JInt 2),
                 (''users'', JArr [JStr ''alice'', JStr ''Bob''])]])],
         timestamp = JStr ''t4''\<rparr>)]"
    unfolding c pre0 r'eq n
    by (simp add: srv4_def foo_def general_def new_Room_def alice_def bob_def)
  have nj: "(ToUser ''b2'',
        \<lparr>msg_type = USER_JOINED,
         payload = JObj [(''username'', JStr ''Bob''), (''room_name'', JStr ''foo'')],
         timestamp = JStr ''t4''\<rparr>) \<notin> set E"
    using d by auto
  have j: "join_room ''t4'' srv3 ''b2'' ''foo'' = (True, srv4,
      [(ToUser ''a1'',
        \<lparr>msg_type = USER_JOINED,
         payload = JObj [(''username'', JStr ''Bob''), (''room_name'', JStr ''foo'')],
         timestamp = JStr ''t4''\<rparr>),
       (ToUser ''a1'',
        \<lparr>msg_type = ROOM_USERS,
         payload = JObj [(''room_name'', JStr ''foo''),
                         (''users'', JArr [JStr ''alice'', JStr ''Bob''])],
         timestamp = JStr ''t4''\<rparr>),
       (ToUser ''b2'',
        \<lparr>msg_type = ROOM_USERS,
         payload = JObj [(''room_name'', JStr ''foo''),
                         (''users'', JArr [JStr ''alice'', JStr ''Bob''])],
         timestamp = JStr ''t4''\<rparr>),
       (ToUser ''b2'',
        \<lparr>msg_type = SYSTEM_MESSAGE,
         payload = JObj [(''content'', JStr (''Te has unido a la sala '' @ [CHR 39] @ ''foo'' @ [CHR 39])),
                         (''room_name'', JStr ''foo'')],
         timestamp = JStr ''t4''\<rparr>),
       (ToUser ''a1'',
        \<lparr>msg_type = ROOMS_LIST,
         payload = JObj [(''rooms'', JArr [
           JObj [(''name'', JStr ''General''), (''created_by'', JStr ''Sistema''),
                 (''created_at'', JStr ''t0''), (''user_count'', JInt 0), (''users'', JArr [])],
           JObj [(''name'', JStr ''foo''), (''created_by'', JStr ''alice''),
                 (''created_at'', JStr ''t2''), (''user_count'', JInt 2),
                 (''users'', JArr [JStr ''alice'', JStr ''Bob''])]])],
         timestamp = JStr ''t4''\<rparr>),
       (ToUser ''b2'',
        \<lparr>msg_type = ROOMS_LIST,
         payload = JObj [(''rooms'', JArr [
           JObj [(''name'', JStr ''General''), (''created_by'', JStr ''Sistema''),
                 (''created_at'', JStr ''t0''), (''user_count'', JInt 0), (''users'', JArr [])],
           JObj [(''name'', JStr ''foo''), (''created_by'', JStr ''alice''),
                 (''created_at'', JStr ''t2''), (''user_count'', JInt 2),
                 (''users'', JArr [JStr ''alice'', JStr ''Bob''])]])],
         timestamp = JStr ''t4''\<rparr>)])"
    using j0 unfolding Eeq .
  show ?thesis
    using nj unfolding E_def[symmetric]
    by (intro conjI j h n r) 
qed

subsection \<open>C7: History bound\<close>

text \<open>
  Claim C7. A room of a reachable server has \<open>max_history = 100\<close> and at most 100 records;
  appending to a room with that bound keeps the last 100 of the old records followed by
  the new one, so the oldest record goes first.
\<close>

theorem history_bound:
  "(reach s \<and> map_of (server_rooms s) R = Some r \<longrightarrow>
      max_history r = 100 \<and> length (message_history r) \<le> 100)
   \<and> (max_history r' = 100 \<longrightarrow>
        message_history (add_message_to_history now r' a c)
          = drop (Suc (length (message_history r')) - 100)
              (message_history r' @ [HistoryEntry a c now]))"
proof -
  have "max_history r = 100 \<and> length (message_history r) \<le> 100"
    if "reach s" "map_of (server_rooms s) R = Some r"
    using inv_roomD[OF reach_inv[OF that(1)] that(2)] by simp
  moreover have "message_history (add_message_to_history now r' a c)
          = drop (Suc (length (message_history r')) - 100)
              (message_history r' @ [HistoryEntry a c now])"
    if "max_history r' = 100"
    using add_message_to_history_fifo[of r' now a c] that by simp
  ultimately show ?thesis by blast
qed

text \<open>
  The theorem at the room foo of the run, and at a room whose history is full: the oldest
  of its 100 records is dropped.
\<close>

theorem history_bound_witness:
  "reach srv4 \<and> map_of (server_rooms srv4) ''foo'' = Some (foo\<lparr>room_users := [''a1'', ''b2'']\<rparr>)
   \<and> length (message_history (foo\<lparr>room_users := [''a1'', ''b2'']\<rparr>)) \<le> 100
   \<and> max_history full_room = 100 \<and> length (message_history full_room) = 100
   \<and> message_history (add_message_to_history ''t6'' full_room ''Bob'' ''adios'')
       = replicate 99 (HistoryEntry ''alice'' ''hi'' ''t5'') @ [HistoryEntry ''Bob'' ''adios'' ''t6'']"
proof -
  note t = history_bound[of srv4 "''foo''" "foo\<lparr>room_users := [''a1'', ''b2'']\<rparr>" full_room
      "''t6''" "''Bob''" "''adios''"]
  have r: "map_of (server_rooms srv4) ''foo'' = Some (foo\<lparr>room_users := [''a1'', ''b2'']\<rparr>)"
    by (simp add: srv4_def)
  have m: "max_history full_room = 100" by (simp add: full_room_def foo_def new_Room_def)
  have l: "length (message_history full_room) = 100" by (simp add: full_room_def)
  from t reach_srv4 r have b: "length (message_history (foo\<lparr>room_users := [''a1'', ''b2'']\<rparr>)) \<le> 100"
    by blast
  from t m l have "message_history (add_message_to_history ''t6'' full_room ''Bob'' ''adios'')
     = drop 1 (message_history full_room @ [HistoryEntry ''Bob'' ''adios'' ''t6''])"
    by simp
  also have "\<dots> = replicate 99 (HistoryEntry ''alice'' ''hi'' ''t5'') @ [HistoryEntry ''Bob'' ''adios'' ''t6'']"
    by code_simp
  finally show ?thesis using reach_srv4 r m l b by blast
qed

subsection \<open>C8: Malformed frames\<close>

text \<open>
  Claim C8, as the code has it. A frame that the JSON library refuses, or whose \<open>type\<close> is
  none of the fifteen tags, makes \<open>from_json\<close> raise; the loop catches the exception and
  logs it. Nothing is sent, the server is unchanged and the connection keeps its user.
\<close>

theorem malformed_frame_ignored:
  assumes "loads raw = None
     \<or> (\<exists>kv t. loads raw = Some (JObj kv) \<and> map_of kv ''type'' = Some t
                \<and> t \<notin> set (map (\<lambda>k. JStr (tag k)) all_types))"
  shows "(\<exists>e. from_json loads now raw = Inl e)
     \<and> handle_connection_step loads now token s w user raw = (s, user, [])"
proof -
  have "\<exists>e. from_json loads now raw = Inl e"
    using assms by (auto simp: from_json_def MessageType_of_unknown)
  then show ?thesis by (auto simp: handle_connection_step_def)
qed

text \<open>
  The theorem at a frame that is not JSON and at a frame with the tag bogus, received
  from alice.
\<close>

theorem malformed_frame_ignored_witness:
  "json_loads ''{oops'' = None
   \<and> handle_connection_step json_loads ''t5'' ''zz'' srv4 1 (Some ''a1'') ''{oops''
       = (srv4, Some ''a1'', [])
   \<and> json_loads ''{\"type\": \"bogus\", \"payload\": {}}''
       = Some (JObj [(''type'', JStr ''bogus''), (''payload'', JObj [])])
   \<and> handle_connection_step json_loads ''t5'' ''zz'' srv4 1 (Some ''a1'')
         ''{\"type\": \"bogus\", \"payload\": {}}''
       = (srv4, Some ''a1'', [])"
proof -
  have a: "json_loads ''{oops'' = None" by code_simp
  have b: "json_loads ''{\"type\": \"bogus\", \"payload\": {}}''
       = Some (JObj [(''type'', JStr ''bogus''), (''payload'', JObj [])])" by code_simp
  have c: "JStr ''bogus'' \<notin> set (map (\<lambda>k. JStr (tag k)) all_types)"
    by (simp add: all_types_def)
  have b': "\<exists>kv t. json_loads ''{\"type\": \"bogus\", \"payload\": {}}'' = Some (JObj kv)
      \<and> map_of kv ''type'' = Some t \<and> t \<notin> set (map (\<lambda>k. JStr (tag k)) all_types)"
    using b c by auto
  from malformed_frame_ignored[of json_loads "''{oops''" "''t5''" "''zz''" srv4 1 "Some ''a1''"] a
  have d: "handle_connection_step json_loads ''t5'' ''zz'' srv4 1 (Some ''a1'') ''{oops''
       = (srv4, Some ''a1'', [])" by blast
  from malformed_frame_ignored[of json_loads "''{\"type\": \"bogus\", \"payload\": {}}''"
      "''t5''" "''zz''" srv4 1 "Some ''a1''"] b'
  have e: "handle_connection_step json_loads ''t5'' ''zz'' srv4 1 (Some ''a1'')
         ''{\"type\": \"bogus\", \"payload\": {}}'' = (srv4, Some ''a1'', [])" by blast
  show ?thesis using a b d e by blast
qed

text \<open>
  Claim C8 as stated fails: on a frame that is not JSON, and on one with an unknown tag,
  alice is sent nothing, so no error message either.
\<close>

theorem malformed_frame_counterexample:
  "json_loads ''{oops'' = None
   \<and> snd (snd (handle_connection_step json_loads ''t5'' ''zz'' srv4 1 (Some ''a1'') ''{oops''))
       = []
   \<and> snd (snd (handle_connection_step json_loads ''t5'' ''zz'' srv4 1 (Some ''a1'') ''{oops''))
       \<noteq> [(ToUser ''a1'', create_error ''t5'' (''mensaje inv'' @ [char_of (225::nat)] @ ''lido''))]
   \<and> snd (snd (handle_connection_step json_loads ''t5'' ''zz'' srv4 1 (Some ''a1'')
         ''{\"type\": \"bogus\", \"payload\": {}}'')) = []"
  by code_simp

subsection \<open>C9: The room General\<close>

text \<open>
  Claim C9. The room General is in \<open>_rooms\<close> in every reachable server (\<open>__init__\<close> puts it
  there); \<open>delete_room\<close> of General returns False and changes nothing, in any server; and
  \<open>leave_room\<close> from General leaves it registered, also when its last user leaves.
\<close>

theorem general_room_immortal:
  "(reach s \<longrightarrow> map_of (server_rooms s) ''General'' \<noteq> None)
   \<and> delete_room now s1 ''General'' = (False, s1, [])
   \<and> (map_of (server_rooms s1) ''General'' \<noteq> None \<longrightarrow>
        map_of (server_rooms (fst (snd (leave_room now s1 u ''General'')))) ''General'' \<noteq> None)"
proof -
  have "reach s \<longrightarrow> map_of (server_rooms s) ''General'' \<noteq> None"
    using reach_inv[of s] unfolding inv_def by blast
  moreover have "delete_room now s1 ''General'' = (False, s1, [])"
    by (simp add: delete_room_def)
  ultimately show ?thesis using leave_room_keeps_rooms[of s1 "''General''" now u "''General''"]
    by blast
qed

text \<open>
  The theorem at the server of the run, and at a server where alice is alone in General
  and leaves.
\<close>

theorem general_room_immortal_witness:
  "reach srv4 \<and> map_of (server_rooms srv4) ''General'' \<noteq> None
   \<and> map_of (server_rooms lonely) ''General'' = Some (general\<lparr>room_users := [''a1'']\<rparr>)
   \<and> fst (leave_room ''t9'' lonely ''a1'' ''General'')
   \<and> map_of (server_rooms (fst (snd (leave_room ''t9'' lonely ''a1'' ''General''))))
        ''General'' = Some general"
proof -
  note t = general_room_immortal[of srv4 "''t9''" lonely "''a1''"]
  have a: "map_of (server_rooms lonely) ''General'' = Some (general\<lparr>room_users := [''a1'']\<rparr>)"
    by (simp add: lonely_def)
  have b: "fst (leave_room ''t9'' lonely ''a1'' ''General'')" by code_simp
  have c: "map_of (server_rooms (fst (snd (leave_room ''t9'' lonely ''a1'' ''General''))))
        ''General'' = Some general" by code_simp
  from t reach_srv4 have "map_of (server_rooms srv4) ''General'' \<noteq> None" by blast
  then show ?thesis using reach_srv4 a b c by blast
qed

subsection \<open>C10: Codec round trip\<close>

text \<open>
  Claim C10. For a message whose timestamp is a string, and whose dict the JSON library
  reads back as it wrote it (what a JSON-representable payload means), \<open>from_json\<close> of
  \<open>to_json\<close> is the message: the tag is found again by \<open>MessageType(value)\<close>, and payload
  and timestamp are the entries of the dict.
\<close>

theorem codec_round_trip:
  assumes "loads (dumps (to_dict m)) = Some (to_dict m)" "timestamp m = JStr ts"
  shows "from_json loads now (to_json dumps m) = Inr m"
proof -
  have "m = \<lparr>msg_type = msg_type m, payload = payload m, timestamp = JStr ts\<rparr>"
    using assms(2) by simp
  then show ?thesis
    using assms
    by (simp add: from_json_def to_json_def to_dict_def MessageType_of_tag mk_Message_def
        del: MessageType_of.simps)
qed

text \<open>
  The theorem at a chat message, with the codec above: the text written and read back.
\<close>

theorem codec_round_trip_witness:
  "json_loads (json_dumps (to_dict hi_msg)) = Some (to_dict hi_msg)
   \<and> timestamp hi_msg = JStr ''t5''
   \<and> to_json json_dumps hi_msg
      = ''{\"type\": \"chat_message\", \"payload\": {\"username\": \"alice\", \"room_name\": \"foo\", \"content\": \"hi\"}, \"timestamp\": \"t5\"}''
   \<and> from_json json_loads ''t9'' (to_json json_dumps hi_msg) = Inr hi_msg"
proof -
  have a: "json_loads (json_dumps (to_dict hi_msg)) = Some (to_dict hi_msg)" by code_simp
  have b: "timestamp hi_msg = JStr ''t5''"
    by (simp add: hi_msg_def create_chat_message_def mk_Message_def)
  have c: "to_json json_dumps hi_msg
      = ''{\"type\": \"chat_message\", \"payload\": {\"username\": \"alice\", \"room_name\": \"foo\", \"content\": \"hi\"}, \"timestamp\": \"t5\"}''"
    by code_simp
  from codec_round_trip[of json_loads json_dumps hi_msg "''t5''" "''t9''"] a b c
  show ?thesis by blast
qed

end
